theory Spec2Isabelle
  imports Main
begin

text \<open>
  The server actions of a presentation editor: two tables, \<open>Presentations\<close> and
  \<open>Slides\<close>, and seven actions that create, update, list and delete their rows for
  the user who owns them. The tables are those of the schema file, the guards and
  handlers those of \<open>src/actions/index.ts\<close>, each under the name it has there.
\<close>

section \<open>Data model: the two tables of the schema\<close>

text \<open>
  The schema declares two tables, \<open>Presentations\<close> and \<open>Slides\<close>. A row is a record
  with one field per column; a column declared \<open>optional: true\<close> holds \<open>None\<close> for SQL
  \<open>NULL\<close>. Record fields carry a prefix (\<open>p_\<close>, \<open>s_\<close>) because the column names \<open>id\<close>,
  \<open>title\<close>, \<open>createdAt\<close>, \<open>updatedAt\<close> occur in both tables.

  A number that an input schema restricts with \<open>z.number().int()\<close>, and the value of a
  number column, is a JavaScript number with an integer value, written here as that
  integer (\<open>int\<close>). A date is the number of milliseconds of a JavaScript \<open>Date\<close>.
\<close>

type_synonym date = int

subsection \<open>Arithmetic on numbers\<close>

text \<open>
  JavaScript numbers are double-precision floats: the sum of two numbers is the exact sum
  rounded to the nearest double, to the one with the even significand in a tie. On
  integers the rounding keeps the 53 leading bits. \<open>bit_length\<close> is the number of bits of
  a natural number, \<open>to_double\<close> the rounding, \<open>number_plus\<close> the operator \<open>+\<close>. A safe
  integer (\<open>Number.isSafeInteger\<close>) has magnitude at most \<open>2^53 - 1\<close>.
\<close>

definition safe_integer :: "int \<Rightarrow> bool" where
  "safe_integer n = (- (2 ^ 53 - 1) \<le> n \<and> n \<le> 2 ^ 53 - 1)"

fun bit_length :: "nat \<Rightarrow> nat" where
  "bit_length n = (if n = 0 then 0 else Suc (bit_length (n div 2)))"

declare bit_length.simps [simp del]

definition to_double :: "int \<Rightarrow> int" where
  "to_double n =
     (let a = nat \<bar>n\<bar>;
          q = 2 ^ (bit_length a - 53);
          m = a div q;
          r = a mod q;
          m' = (if q < 2 * r \<or> (2 * r = q \<and> odd m) then m + 1 else m)
      in sgn n * int (m' * q))"

definition number_plus :: "int \<Rightarrow> int \<Rightarrow> int" where
  "number_plus a b = to_double (a + b)"

record presentation =
  p_id :: string
  p_userId :: string
  p_title :: string
  p_description :: "string option"
  p_theme :: "string option"
  p_aspectRatio :: "string option"
  p_slideCount :: "int option"
  p_createdAt :: date
  p_updatedAt :: date

record slide =
  s_id :: string
  s_presentationId :: string
  s_orderIndex :: int
  s_layoutType :: "string option"
  s_title :: "string option"
  s_content :: "string option"
  s_notes :: "string option"
  s_rawData :: "string option"
  s_createdAt :: date
  s_updatedAt :: date

text \<open>
  The store is the pair of tables, each a list of rows in insertion order, together with
  the list of queries issued against it so far: reading the store is an effect of a
  handler just as writing it is, and the list makes it visible.
\<close>

datatype table_name = PresentationsTable | SlidesTable

datatype query = SELECT table_name | INSERT table_name | UPDATE table_name | DELETE table_name

record db =
  Presentations :: "presentation list"
  Slides :: "slide list"
  issued :: "query list"

section \<open>Errors, results and the request context\<close>

text \<open>
  \<open>UNAUTHORIZED\<close> and \<open>NOT_FOUND\<close> are the two \<open>ActionError\<close> codes the handlers throw.
  \<open>INPUT_INVALID\<close> is the failure with which \<open>defineAction\<close> rejects an input its
  schema does not accept, \<open>CONSTRAINT_FAILED\<close> is the failure of an insert whose primary
  key is already in the table, and \<open>RANGE_ERROR\<close> is the \<open>RangeError\<close> with which the
  store client refuses to hand over a row.
\<close>

datatype error = UNAUTHORIZED | NOT_FOUND | INPUT_INVALID | CONSTRAINT_FAILED | RANGE_ERROR

text \<open>
  An asynchronous computation against the store takes the store and gives back either the
  error it threw or the value it returned, and the store as it left it.
\<close>

type_synonym 'a async = "db \<Rightarrow> (error + 'a) \<times> db"

definition return :: "'a \<Rightarrow> 'a async" where
  "return x d = (Inr x, d)"

definition throw :: "error \<Rightarrow> 'a async" where
  "throw e d = (Inl e, d)"

definition await :: "'a async \<Rightarrow> ('a \<Rightarrow> 'b async) \<Rightarrow> 'b async" where
  "await m k d = (case m d of (Inl e, d') \<Rightarrow> (Inl e, d') | (Inr x, d') \<Rightarrow> k x d')"

text \<open>\<open>const [x] = rows\<close>: the first row, or \<open>undefined\<close> when there is none.\<close>

definition first_row :: "'a list \<Rightarrow> 'a option" where
  "first_row rows = (case rows of [] \<Rightarrow> None | x # _ \<Rightarrow> Some x)"

text \<open>
  The request context. Of the user that the session layer puts into \<open>context.locals\<close>
  the handlers read \<open>id\<close> only; \<open>locals\<close> and \<open>user\<close> may each be missing.
\<close>

record user =
  user_id :: string

record locals =
  locals_user :: "user option"

record ActionAPIContext =
  context_locals :: "locals option"

text \<open>What a handler reads from outside the store: the clock and the UUID generator.\<close>

record env =
  new_Date :: date
  randomUUID :: string

text \<open>The \<open>data\<close> member of a successful result; \<open>deleteSlide\<close> returns none.\<close>

datatype payload =
    Presentation_data "presentation option"
  | Presentation_items "presentation list" nat
  | Slide_data "slide option"
  | Slide_items "slide list" nat
  | No_data

section \<open>The queries the handlers issue\<close>

text \<open>
  Modelled from the spec: the store is the database of \<open>astro:db\<close>, whose code is not
  part of the sources; the spec describes it as a relational store providing
  insert/update/select/delete with equality and conjunction filtering and a "returning
  the affected row(s)" capability. A \<open>where\<close> clause is a predicate on rows. Every query
  is recorded in \<open>issued\<close>. An insert fails when the \<open>id\<close> of the row, the primary key
  the schema declares for both tables, is already in the table.

  Every statement runs on its own (the spec: multi-step operations are not wrapped in a
  transaction): the store has carried it out before the client hands its rows to the
  handler. The spec says nothing about numbers outside the safe range; for them the
  queries follow the store and its client (SQLite behind the libSQL client). A number
  column is an integer column. It keeps a number of magnitude below \<open>2^63\<close> as a 64-bit
  integer and a larger one as a float. The client hands over a float as it is and a
  64-bit integer only when it is a safe integer; for any other it throws a \<open>RangeError\<close>,
  and the statement whose rows it was reading stays carried out.
\<close>

definition issue :: "query \<Rightarrow> db \<Rightarrow> db" where
  "issue q d = d\<lparr>issued := issued d @ [q]\<rparr>"

definition reads_back :: "int \<Rightarrow> bool" where
  "reads_back n = (safe_integer n \<or> 2 ^ 63 \<le> \<bar>n\<bar>)"

definition presentation_reads_back :: "presentation \<Rightarrow> bool" where
  "presentation_reads_back row =
     (case p_slideCount row of None \<Rightarrow> True | Some n \<Rightarrow> reads_back n)"

definition slide_reads_back :: "slide \<Rightarrow> bool" where
  "slide_reads_back row = reads_back (s_orderIndex row)"

definition rows_read :: "('a \<Rightarrow> bool) \<Rightarrow> 'a list \<Rightarrow> error + 'a list" where
  "rows_read ok rows = (if list_all ok rows then Inr rows else Inl RANGE_ERROR)"

definition select_Presentations :: "(presentation \<Rightarrow> bool) \<Rightarrow> presentation list async" where
  "select_Presentations wh d =
     (rows_read presentation_reads_back (filter wh (Presentations d)),
      issue (SELECT PresentationsTable) d)"

text \<open>
  The handlers select whole slides, or the \<open>orderIndex\<close> of slides; \<open>orderIndex\<close> is the
  one number column of a slide, so the same rows are read back in both cases.
\<close>

definition select_Slides :: "(slide \<Rightarrow> bool) \<Rightarrow> slide list async" where
  "select_Slides wh d =
     (rows_read slide_reads_back (filter wh (Slides d)), issue (SELECT SlidesTable) d)"

text \<open>\<open>insert(..).values(row).returning()\<close>: the inserted row is returned.\<close>

definition insert_Presentations_returning :: "presentation \<Rightarrow> presentation list async" where
  "insert_Presentations_returning row d =
     (if p_id row \<in> set (map p_id (Presentations d))
      then (Inl CONSTRAINT_FAILED, issue (INSERT PresentationsTable) d)
      else (rows_read presentation_reads_back [row],
            issue (INSERT PresentationsTable) (d\<lparr>Presentations := Presentations d @ [row]\<rparr>)))"

definition insert_Slides_returning :: "slide \<Rightarrow> slide list async" where
  "insert_Slides_returning row d =
     (if s_id row \<in> set (map s_id (Slides d))
      then (Inl CONSTRAINT_FAILED, issue (INSERT SlidesTable) d)
      else (rows_read slide_reads_back [row],
            issue (INSERT SlidesTable) (d\<lparr>Slides := Slides d @ [row]\<rparr>)))"

text \<open>\<open>update(..).set(..).where(..)\<close>, without \<open>returning\<close>: no row is read back.\<close>

definition update_Presentations ::
  "(presentation \<Rightarrow> presentation) \<Rightarrow> (presentation \<Rightarrow> bool) \<Rightarrow> unit async" where
  "update_Presentations assign wh d =
     (Inr (),
      issue (UPDATE PresentationsTable)
        (d\<lparr>Presentations := map (\<lambda>row. if wh row then assign row else row) (Presentations d)\<rparr>))"

text \<open>\<open>update(..).set(..).where(..).returning()\<close>: the rows as updated are returned.\<close>

definition update_Presentations_returning ::
  "(presentation \<Rightarrow> presentation) \<Rightarrow> (presentation \<Rightarrow> bool) \<Rightarrow> presentation list async" where
  "update_Presentations_returning assign wh d =
     (rows_read presentation_reads_back (map assign (filter wh (Presentations d))),
      issue (UPDATE PresentationsTable)
        (d\<lparr>Presentations := map (\<lambda>row. if wh row then assign row else row) (Presentations d)\<rparr>))"

definition update_Slides_returning ::
  "(slide \<Rightarrow> slide) \<Rightarrow> (slide \<Rightarrow> bool) \<Rightarrow> slide list async" where
  "update_Slides_returning assign wh d =
     (rows_read slide_reads_back (map assign (filter wh (Slides d))),
      issue (UPDATE SlidesTable)
        (d\<lparr>Slides := map (\<lambda>row. if wh row then assign row else row) (Slides d)\<rparr>))"

text \<open>\<open>delete(..).where(..)\<close>: the result is \<open>rowsAffected\<close>.\<close>

definition delete_Slides :: "(slide \<Rightarrow> bool) \<Rightarrow> nat async" where
  "delete_Slides wh d =
     (Inr (length (filter wh (Slides d))),
      issue (DELETE SlidesTable) (d\<lparr>Slides := filter (\<lambda>row. \<not> wh row) (Slides d)\<rparr>))"

section \<open>The two guards\<close>

definition requireUser :: "ActionAPIContext \<Rightarrow> error + user" where
  "requireUser context =
     (case Option.bind (context_locals context) locals_user of
        None \<Rightarrow> Inl UNAUTHORIZED
      | Some u \<Rightarrow> Inr u)"

definition getOwnedPresentation :: "string \<Rightarrow> string \<Rightarrow> presentation async" where
  "getOwnedPresentation presentationId userId =
     await (select_Presentations (\<lambda>row. p_id row = presentationId \<and> p_userId row = userId))
       (\<lambda>rows. case first_row rows of
                  None \<Rightarrow> throw NOT_FOUND
                | Some presentation \<Rightarrow> return presentation)"

section \<open>Inputs of the actions\<close>

text \<open>
  Each record is the type that the action's \<open>z.object\<close> schema describes: \<open>z.string()\<close>
  is a \<open>string\<close>, \<open>z.number().int()\<close> an \<open>int\<close>, \<open>.optional()\<close> an \<open>option\<close> with \<open>None\<close>
  for \<open>undefined\<close>. What the schema checks beyond the type (\<open>.min(1)\<close>, \<open>.refine\<close>) is the
  predicate that follows the record.
\<close>

record createPresentation_input =
  cp_title :: string
  cp_description :: "string option"
  cp_theme :: "string option"
  cp_aspectRatio :: "string option"

definition createPresentation_schema :: "createPresentation_input \<Rightarrow> bool" where
  "createPresentation_schema input = (1 \<le> length (cp_title input))"

record updatePresentation_input =
  up_id :: string
  up_title :: "string option"
  up_description :: "string option"
  up_theme :: "string option"
  up_aspectRatio :: "string option"
  up_slideCount :: "int option"

definition updatePresentation_schema :: "updatePresentation_input \<Rightarrow> bool" where
  "updatePresentation_schema input =
     ((1 \<le> length (up_id input)
       \<and> (case up_title input of None \<Rightarrow> True | Some t \<Rightarrow> 1 \<le> length t))
      \<and> (up_title input \<noteq> None
         \<or> up_description input \<noteq> None
         \<or> up_theme input \<noteq> None
         \<or> up_aspectRatio input \<noteq> None
         \<or> up_slideCount input \<noteq> None))"

record createSlide_input =
  cs_presentationId :: string
  cs_orderIndex :: "int option"
  cs_layoutType :: "string option"
  cs_title :: "string option"
  cs_content :: "string option"
  cs_notes :: "string option"
  cs_rawData :: "string option"

definition createSlide_schema :: "createSlide_input \<Rightarrow> bool" where
  "createSlide_schema input = (1 \<le> length (cs_presentationId input))"

record updateSlide_input =
  us_id :: string
  us_presentationId :: string
  us_orderIndex :: "int option"
  us_layoutType :: "string option"
  us_title :: "string option"
  us_content :: "string option"
  us_notes :: "string option"
  us_rawData :: "string option"

definition updateSlide_schema :: "updateSlide_input \<Rightarrow> bool" where
  "updateSlide_schema input =
     ((1 \<le> length (us_id input) \<and> 1 \<le> length (us_presentationId input))
      \<and> (us_orderIndex input \<noteq> None
         \<or> us_layoutType input \<noteq> None
         \<or> us_title input \<noteq> None
         \<or> us_content input \<noteq> None
         \<or> us_notes input \<noteq> None
         \<or> us_rawData input \<noteq> None))"

record deleteSlide_input =
  ds_id :: string
  ds_presentationId :: string

definition deleteSlide_schema :: "deleteSlide_input \<Rightarrow> bool" where
  "deleteSlide_schema input = (1 \<le> length (ds_id input) \<and> 1 \<le> length (ds_presentationId input))"

record listSlides_input =
  ls_presentationId :: string

definition listSlides_schema :: "listSlides_input \<Rightarrow> bool" where
  "listSlides_schema input = (1 \<le> length (ls_presentationId input))"

text \<open>\<open>z.object({}).optional()\<close>: an object without members, or nothing.\<close>

definition listPresentations_schema :: "unit option \<Rightarrow> bool" where
  "listPresentations_schema input = True"

section \<open>The handlers\<close>

definition createPresentation_handler ::
  "createPresentation_input \<Rightarrow> ActionAPIContext \<Rightarrow> env \<Rightarrow> payload async" where
  "createPresentation_handler input context env =
     (case requireUser context of
        Inl e \<Rightarrow> throw e
      | Inr user \<Rightarrow>
          (let now = new_Date env;
               id = randomUUID env
           in await (insert_Presentations_returning
                \<lparr>p_id = id,
                 p_userId = user_id user,
                 p_title = cp_title input,
                 p_description = cp_description input,
                 p_theme = cp_theme input,
                 p_aspectRatio = cp_aspectRatio input,
                 p_slideCount = Some 0,
                 p_createdAt = now,
                 p_updatedAt = now\<rparr>)
              (\<lambda>rows. return (Presentation_data (first_row rows)))))"

text \<open>
  The object given to \<open>set\<close> has a member for a column only when the input supplies it,
  and always has \<open>updatedAt\<close>.
\<close>

definition updatePresentation_set ::
  "updatePresentation_input \<Rightarrow> date \<Rightarrow> presentation \<Rightarrow> presentation" where
  "updatePresentation_set input now row =
     (let r1 = (case up_title input of None \<Rightarrow> row | Some v \<Rightarrow> row\<lparr>p_title := v\<rparr>);
          r2 = (case up_description input of None \<Rightarrow> r1 | Some v \<Rightarrow> r1\<lparr>p_description := Some v\<rparr>);
          r3 = (case up_theme input of None \<Rightarrow> r2 | Some v \<Rightarrow> r2\<lparr>p_theme := Some v\<rparr>);
          r4 = (case up_aspectRatio input of None \<Rightarrow> r3 | Some v \<Rightarrow> r3\<lparr>p_aspectRatio := Some v\<rparr>);
          r5 = (case up_slideCount input of None \<Rightarrow> r4 | Some v \<Rightarrow> r4\<lparr>p_slideCount := Some v\<rparr>)
      in r5\<lparr>p_updatedAt := now\<rparr>)"

definition updatePresentation_handler ::
  "updatePresentation_input \<Rightarrow> ActionAPIContext \<Rightarrow> env \<Rightarrow> payload async" where
  "updatePresentation_handler input context env =
     (case requireUser context of
        Inl e \<Rightarrow> throw e
      | Inr user \<Rightarrow>
          await (getOwnedPresentation (up_id input) (user_id user)) (\<lambda>_.
          await (update_Presentations_returning (updatePresentation_set input (new_Date env))
                   (\<lambda>row. p_id row = up_id input)) (\<lambda>rows.
          return (Presentation_data (first_row rows)))))"

definition listPresentations_handler ::
  "unit option \<Rightarrow> ActionAPIContext \<Rightarrow> env \<Rightarrow> payload async" where
  "listPresentations_handler input context env =
     (case requireUser context of
        Inl e \<Rightarrow> throw e
      | Inr user \<Rightarrow>
          await (select_Presentations (\<lambda>row. p_userId row = user_id user)) (\<lambda>presentations.
          return (Presentation_items presentations (length presentations))))"

text \<open>
  \<open>nextOrder\<close>: the supplied index if there is one; otherwise \<open>1\<close> when the list of
  existing indices is empty and \<open>Math.max\<close> of the list plus one, in JavaScript's
  arithmetic, when it is not. \<open>Math.max\<close> is only ever applied to a non-empty list here,
  so it takes the list's head and tail. The source's \<open>row.orderIndex ?? 0\<close> guards against
  a \<open>null\<close> that the non-optional column \<open>orderIndex\<close> never holds; each row gives its
  index as it is.

  \<open>createSlide\<close> issues four statements one after the other, each awaited before the
  next: the guard's select, the select of the existing order indices, the insert of the
  slide and the update of the parent. A statement that throws ends the call, and what the
  earlier statements wrote stays written. The count it writes is
  \<open>existingOrders.length + 1\<close>; the length of an array is below \<open>2^32\<close>, where \<open>+\<close> is
  exact.
\<close>

definition Math_max :: "int \<Rightarrow> int list \<Rightarrow> int" where
  "Math_max x xs = fold max xs x"

definition nextOrder :: "int option \<Rightarrow> int list \<Rightarrow> int" where
  "nextOrder orderIndex existingOrders =
     (case orderIndex of
        Some n \<Rightarrow> n
      | None \<Rightarrow> (case existingOrders of
                   [] \<Rightarrow> 1
                 | x # xs \<Rightarrow> number_plus (Math_max x xs) 1))"

definition createSlide_handler ::
  "createSlide_input \<Rightarrow> ActionAPIContext \<Rightarrow> env \<Rightarrow> payload async" where
  "createSlide_handler input context env =
     (case requireUser context of
        Inl e \<Rightarrow> throw e
      | Inr user \<Rightarrow>
          await (getOwnedPresentation (cs_presentationId input) (user_id user)) (\<lambda>_.
          await (select_Slides (\<lambda>row. s_presentationId row = cs_presentationId input)) (\<lambda>selected.
          (let existingOrders = map s_orderIndex selected;
               now = new_Date env
           in await (insert_Slides_returning
                \<lparr>s_id = randomUUID env,
                 s_presentationId = cs_presentationId input,
                 s_orderIndex = nextOrder (cs_orderIndex input) existingOrders,
                 s_layoutType = cs_layoutType input,
                 s_title = cs_title input,
                 s_content = cs_content input,
                 s_notes = cs_notes input,
                 s_rawData = cs_rawData input,
                 s_createdAt = now,
                 s_updatedAt = now\<rparr>) (\<lambda>rows.
              await (update_Presentations
                       (\<lambda>row. row\<lparr>p_slideCount := Some (int (length existingOrders) + 1),
                                  p_updatedAt := now\<rparr>)
                       (\<lambda>row. p_id row = cs_presentationId input)) (\<lambda>_.
              return (Slide_data (first_row rows))))))))"

definition updateSlide_set :: "updateSlide_input \<Rightarrow> date \<Rightarrow> slide \<Rightarrow> slide" where
  "updateSlide_set input now row =
     (let r1 = (case us_orderIndex input of None \<Rightarrow> row | Some v \<Rightarrow> row\<lparr>s_orderIndex := v\<rparr>);
          r2 = (case us_layoutType input of None \<Rightarrow> r1 | Some v \<Rightarrow> r1\<lparr>s_layoutType := Some v\<rparr>);
          r3 = (case us_title input of None \<Rightarrow> r2 | Some v \<Rightarrow> r2\<lparr>s_title := Some v\<rparr>);
          r4 = (case us_content input of None \<Rightarrow> r3 | Some v \<Rightarrow> r3\<lparr>s_content := Some v\<rparr>);
          r5 = (case us_notes input of None \<Rightarrow> r4 | Some v \<Rightarrow> r4\<lparr>s_notes := Some v\<rparr>);
          r6 = (case us_rawData input of None \<Rightarrow> r5 | Some v \<Rightarrow> r5\<lparr>s_rawData := Some v\<rparr>)
      in r6\<lparr>s_updatedAt := now\<rparr>)"

definition updateSlide_handler ::
  "updateSlide_input \<Rightarrow> ActionAPIContext \<Rightarrow> env \<Rightarrow> payload async" where
  "updateSlide_handler input context env =
     (case requireUser context of
        Inl e \<Rightarrow> throw e
      | Inr user \<Rightarrow>
          await (getOwnedPresentation (us_presentationId input) (user_id user)) (\<lambda>_.
          await (select_Slides (\<lambda>row. s_id row = us_id input
                                  \<and> s_presentationId row = us_presentationId input)) (\<lambda>selected.
          (case first_row selected of
             None \<Rightarrow> throw NOT_FOUND
           | Some existing \<Rightarrow>
               await (update_Slides_returning (updateSlide_set input (new_Date env))
                        (\<lambda>row. s_id row = us_id input)) (\<lambda>rows.
               return (Slide_data (first_row rows)))))))"

definition deleteSlide_handler ::
  "deleteSlide_input \<Rightarrow> ActionAPIContext \<Rightarrow> env \<Rightarrow> payload async" where
  "deleteSlide_handler input context env =
     (case requireUser context of
        Inl e \<Rightarrow> throw e
      | Inr user \<Rightarrow>
          await (getOwnedPresentation (ds_presentationId input) (user_id user)) (\<lambda>_.
          await (delete_Slides (\<lambda>row. s_id row = ds_id input
                                  \<and> s_presentationId row = ds_presentationId input)) (\<lambda>rowsAffected.
          if rowsAffected = 0 then throw NOT_FOUND else return No_data)))"

definition listSlides_handler ::
  "listSlides_input \<Rightarrow> ActionAPIContext \<Rightarrow> env \<Rightarrow> payload async" where
  "listSlides_handler input context env =
     (case requireUser context of
        Inl e \<Rightarrow> throw e
      | Inr user \<Rightarrow>
          await (getOwnedPresentation (ls_presentationId input) (user_id user)) (\<lambda>_.
          await (select_Slides (\<lambda>row. s_presentationId row = ls_presentationId input)) (\<lambda>slides.
          return (Slide_items slides (length slides)))))"

section \<open>The actions\<close>

text \<open>
  Modelled from the spec: \<open>defineAction\<close> is imported from \<open>astro:actions\<close> and its code
  is not part of the sources. The spec says that input-shape violations "are rejected by
  schema validation before the handler body runs, surfacing as a validation failure
  distinct from the two domain error kinds": the handler runs on an input only when the
  action's schema accepts it, and otherwise the action fails with \<open>INPUT_INVALID\<close>
  without having touched the store.
\<close>

definition defineAction ::
  "('i \<Rightarrow> bool) \<Rightarrow> ('i \<Rightarrow> ActionAPIContext \<Rightarrow> env \<Rightarrow> payload async)
     \<Rightarrow> 'i \<Rightarrow> ActionAPIContext \<Rightarrow> env \<Rightarrow> payload async" where
  "defineAction schema handler input context env =
     (if schema input then handler input context env else throw INPUT_INVALID)"

definition server_createPresentation where
  "server_createPresentation = defineAction createPresentation_schema createPresentation_handler"

definition server_updatePresentation where
  "server_updatePresentation = defineAction updatePresentation_schema updatePresentation_handler"

definition server_listPresentations where
  "server_listPresentations = defineAction listPresentations_schema listPresentations_handler"

definition server_createSlide where
  "server_createSlide = defineAction createSlide_schema createSlide_handler"

definition server_updateSlide where
  "server_updateSlide = defineAction updateSlide_schema updateSlide_handler"

definition server_deleteSlide where
  "server_deleteSlide = defineAction deleteSlide_schema deleteSlide_handler"

definition server_listSlides where
  "server_listSlides = defineAction listSlides_schema listSlides_handler"

section \<open>Predicates on the store\<close>

text \<open>The slides that reference a presentation, and the rows a user owns.\<close>

definition slides_of :: "db \<Rightarrow> string \<Rightarrow> slide list" where
  "slides_of d presentationId = filter (\<lambda>row. s_presentationId row = presentationId) (Slides d)"

definition owns :: "db \<Rightarrow> string \<Rightarrow> string \<Rightarrow> bool" where
  "owns d userId presentationId =
     (\<exists>row \<in> set (Presentations d). p_id row = presentationId \<and> p_userId row = userId)"

definition has_slide :: "db \<Rightarrow> string \<Rightarrow> string \<Rightarrow> bool" where
  "has_slide d presentationId slideId =
     (\<exists>row \<in> set (Slides d). s_id row = slideId \<and> s_presentationId row = presentationId)"

text \<open>The cached count of every presentation is the number of slides that reference it.\<close>

definition slideCount_in_sync :: "db \<Rightarrow> bool" where
  "slideCount_in_sync d =
     (\<forall>p \<in> set (Presentations d). p_slideCount p = Some (int (length (slides_of d (p_id p)))))"

text \<open>
  The foreign key the schema declares on \<open>Slides.presentationId\<close>: every slide references
  a presentation of the store.
\<close>

definition references_resolve :: "db \<Rightarrow> bool" where
  "references_resolve d =
     (\<forall>row \<in> set (Slides d). s_presentationId row \<in> set (map p_id (Presentations d)))"

text \<open>
  The rows that the ownership guard selects for a user and an identifier can be read
  back: their stored \<open>slideCount\<close> is \<open>NULL\<close> or a number the client hands over.
\<close>

definition guard_reads_back :: "db \<Rightarrow> string \<Rightarrow> string \<Rightarrow> bool" where
  "guard_reads_back d userId presentationId =
     (\<forall>row \<in> set (Presentations d).
        p_id row = presentationId \<and> p_userId row = userId \<longrightarrow> presentation_reads_back row)"

text \<open>The caller of a request, as \<open>requireUser\<close> reads it: \<open>context.locals?.user\<close>.\<close>

definition caller :: "ActionAPIContext \<Rightarrow> user option" where
  "caller context = Option.bind (context_locals context) locals_user"

section \<open>A sample history\<close>

text \<open>
  Two users, and the stores of a short history that starts with the empty store: the
  first user creates a presentation (\<open>start_db\<close>), creates two slides without giving
  an order index (\<open>two_slides_db\<close>) and deletes the first of them (\<open>one_deleted_db\<close>).
\<close>

definition alice :: ActionAPIContext where
  "alice = \<lparr>context_locals = Some \<lparr>locals_user = Some \<lparr>user_id = ''alice''\<rparr>\<rparr>\<rparr>"

definition bob :: ActionAPIContext where
  "bob = \<lparr>context_locals = Some \<lparr>locals_user = Some \<lparr>user_id = ''bob''\<rparr>\<rparr>\<rparr>"

definition anonymous :: ActionAPIContext where
  "anonymous = \<lparr>context_locals = Some \<lparr>locals_user = None\<rparr>\<rparr>"

definition deck :: presentation where
  "deck = \<lparr>p_id = ''p1'', p_userId = ''alice'', p_title = ''Q1 Review'',
            p_description = None, p_theme = Some ''minimal'', p_aspectRatio = None,
            p_slideCount = Some 0, p_createdAt = 100, p_updatedAt = 100\<rparr>"

definition blank :: "string \<Rightarrow> int \<Rightarrow> date \<Rightarrow> slide" where
  "blank i n t = \<lparr>s_id = i, s_presentationId = ''p1'', s_orderIndex = n,
                   s_layoutType = None, s_title = None, s_content = None,
                   s_notes = None, s_rawData = None, s_createdAt = t, s_updatedAt = t\<rparr>"

definition onto_deck :: createSlide_input where
  "onto_deck = \<lparr>cs_presentationId = ''p1'', cs_orderIndex = None, cs_layoutType = None,
                 cs_title = None, cs_content = None, cs_notes = None, cs_rawData = None\<rparr>"

definition env_at :: "date \<Rightarrow> string \<Rightarrow> env" where
  "env_at t i = \<lparr>new_Date = t, randomUUID = i\<rparr>"

definition q1_review :: createPresentation_input where
  "q1_review = \<lparr>cp_title = ''Q1 Review'', cp_description = None, cp_theme = Some ''minimal'',
                 cp_aspectRatio = None\<rparr>"

definition empty_db :: db where
  "empty_db = \<lparr>Presentations = [], Slides = [], issued = []\<rparr>"

definition start_db :: db where
  "start_db = \<lparr>Presentations = [deck], Slides = [], issued = [INSERT PresentationsTable]\<rparr>"

definition two_slides_db :: db where
  "two_slides_db =
     \<lparr>Presentations = [deck\<lparr>p_slideCount := Some 2, p_updatedAt := 120\<rparr>],
      Slides = [blank ''s1'' 1 110, blank ''s2'' 2 120],
      issued = [INSERT PresentationsTable,
                SELECT PresentationsTable, SELECT SlidesTable, INSERT SlidesTable,
                UPDATE PresentationsTable,
                SELECT PresentationsTable, SELECT SlidesTable, INSERT SlidesTable,
                UPDATE PresentationsTable]\<rparr>"

definition one_deleted_db :: db where
  "one_deleted_db =
     two_slides_db\<lparr>Slides := [blank ''s2'' 2 120],
                   issued := issued two_slides_db @ [SELECT PresentationsTable, DELETE SlidesTable]\<rparr>"

text \<open>After the two slides, the first user creates a second presentation.\<close>

definition roadmap :: createPresentation_input where
  "roadmap = \<lparr>cp_title = ''Roadmap'', cp_description = None, cp_theme = None,
               cp_aspectRatio = None\<rparr>"

definition two_decks_db :: db where
  "two_decks_db =
     two_slides_db\<lparr>Presentations := Presentations two_slides_db @
                      [\<lparr>p_id = ''p2'', p_userId = ''alice'', p_title = ''Roadmap'',
                        p_description = None, p_theme = None, p_aspectRatio = None,
                        p_slideCount = Some 0, p_createdAt = 125, p_updatedAt = 125\<rparr>],
                   issued := issued two_slides_db @ [INSERT PresentationsTable]\<rparr>"

text \<open>
  Stores with numbers outside the safe-integer range. In \<open>edge_db\<close> and \<open>far_db\<close> the
  first user has given the one slide of the presentation the order index \<open>2^53 - 1\<close> and
  \<open>2^64\<close>. In \<open>miscounted_db\<close> she has set the \<open>slideCount\<close> of the presentation of
  \<open>two_slides_db\<close> to \<open>2^53\<close>: the update was carried out and the call threw when the
  updated row was read back.
\<close>

definition onto_deck_at :: "int \<Rightarrow> createSlide_input" where
  "onto_deck_at n = onto_deck\<lparr>cs_orderIndex := Some n\<rparr>"

definition one_slide_db :: "int \<Rightarrow> db" where
  "one_slide_db n =
     \<lparr>Presentations = [deck\<lparr>p_slideCount := Some 1, p_updatedAt := 110\<rparr>],
      Slides = [blank ''s1'' n 110],
      issued = [INSERT PresentationsTable,
                SELECT PresentationsTable, SELECT SlidesTable, INSERT SlidesTable,
                UPDATE PresentationsTable]\<rparr>"

definition edge_db :: db where
  "edge_db = one_slide_db (2 ^ 53 - 1)"

definition far_db :: db where
  "far_db = one_slide_db (2 ^ 64)"

definition recount :: "int \<Rightarrow> updatePresentation_input" where
  "recount n = \<lparr>up_id = ''p1'', up_title = None, up_description = None, up_theme = None,
                 up_aspectRatio = None, up_slideCount = Some n\<rparr>"

definition miscounted_db :: db where
  "miscounted_db =
     two_slides_db\<lparr>Presentations := [deck\<lparr>p_slideCount := Some (2 ^ 53), p_updatedAt := 125\<rparr>],
                   issued := issued two_slides_db @ [SELECT PresentationsTable,
                               UPDATE PresentationsTable]\<rparr>"

section \<open>Arithmetic and reading back\<close>

lemma bit_length_le: "n < 2 ^ k \<Longrightarrow> bit_length n \<le> k"
proof (induction k arbitrary: n)
  case 0
  then show ?case by (simp add: bit_length.simps)
next
  case (Suc k)
  then have "n div 2 < 2 ^ k" by simp
  then have "bit_length (n div 2) \<le> k" by (rule Suc.IH)
  then show ?case by (subst bit_length.simps) simp
qed

lemma to_double_exact: "\<bar>n\<bar> < 2 ^ 53 \<Longrightarrow> to_double n = n"
proof -
  assume a: "\<bar>n\<bar> < 2 ^ 53"
  then have "nat \<bar>n\<bar> < 2 ^ 53" by simp
  then have "bit_length (nat \<bar>n\<bar>) - 53 = 0"
    using bit_length_le [of "nat \<bar>n\<bar>" 53] by simp
  then show ?thesis
    by (simp add: to_double_def Let_def abs_mult_sgn mult_sgn_abs)
qed

lemma to_double_safe: "safe_integer n \<Longrightarrow> to_double n = n"
  unfolding safe_integer_def by (rule to_double_exact) arith

lemma safe_reads_back: "safe_integer n \<Longrightarrow> reads_back n"
  by (simp add: reads_back_def)

lemma bit_length_eq: "2 ^ k \<le> n \<Longrightarrow> n < 2 ^ Suc k \<Longrightarrow> bit_length n = Suc k"
proof (induction k arbitrary: n)
  case 0
  then have "n = 1" by simp
  then show ?case by (simp add: bit_length.simps)
next
  case (Suc k)
  then have "2 ^ k \<le> n div 2" and "n div 2 < 2 ^ Suc k" by simp_all
  then have "bit_length (n div 2) = Suc k" by (rule Suc.IH)
  moreover from Suc.prems have "n \<noteq> 0" by auto
  ultimately show ?case by (subst bit_length.simps) simp
qed

text \<open>
  Two sums outside the safe range: \<open>2^53 - 1 + 1\<close> is the double \<open>2^53\<close>, and \<open>2^64 + 1\<close>
  is rounded to \<open>2^64\<close>.
\<close>

lemma to_double_edge: "to_double 9007199254740992 = 9007199254740992"
proof -
  have "bit_length (nat \<bar>9007199254740992 :: int\<bar>) = Suc 53"
    by (rule bit_length_eq) simp_all
  then show ?thesis
    by (simp add: to_double_def Let_def)
qed

lemma to_double_above: "to_double 18446744073709551617 = 18446744073709551616"
proof -
  have "bit_length (nat \<bar>18446744073709551617 :: int\<bar>) = Suc 64"
    by (rule bit_length_eq) simp_all
  then show ?thesis
    by (simp add: to_double_def Let_def)
qed

section \<open>Running the handlers\<close>

lemmas run_defs = requireUser_def getOwnedPresentation_def await_def throw_def return_def
  first_row_def rows_read_def presentation_reads_back_def slide_reads_back_def
  select_Presentations_def select_Slides_def insert_Presentations_returning_def
  insert_Slides_returning_def update_Presentations_def update_Presentations_returning_def
  update_Slides_returning_def delete_Slides_def issue_def nextOrder_def Math_max_def
  number_plus_def

lemmas sample_defs = alice_def bob_def anonymous_def deck_def blank_def onto_deck_def env_at_def
  q1_review_def empty_db_def start_db_def two_slides_db_def one_deleted_db_def roadmap_def
  two_decks_db_def onto_deck_at_def one_slide_db_def edge_db_def far_db_def recount_def
  miscounted_db_def

text \<open>The sample stores are the ones the handlers produce, one after the other.\<close>

lemma sample_history:
  "createPresentation_handler q1_review alice (env_at 100 ''p1'') empty_db
     = (Inr (Presentation_data (Some deck)), start_db)
   \<and> createSlide_handler onto_deck alice (env_at 120 ''s2'')
     (snd (createSlide_handler onto_deck alice (env_at 110 ''s1'') start_db))
   = (Inr (Slide_data (Some (blank ''s2'' 2 120))), two_slides_db)
   \<and> deleteSlide_handler \<lparr>ds_id = ''s1'', ds_presentationId = ''p1''\<rparr> alice (env_at 130 ''s3'')
       two_slides_db
     = (Inr No_data, one_deleted_db)
   \<and> snd (createPresentation_handler roadmap alice (env_at 125 ''p2'') two_slides_db)
     = two_decks_db"
  by (simp add: createSlide_handler_def deleteSlide_handler_def createPresentation_handler_def
      run_defs sample_defs reads_back_def safe_integer_def to_double_safe)

lemma sample_history_beyond_safe_integers:
  "createSlide_handler (onto_deck_at (2 ^ 53 - 1)) alice (env_at 110 ''s1'') start_db
     = (Inr (Slide_data (Some (blank ''s1'' (2 ^ 53 - 1) 110))), edge_db)
   \<and> createSlide_handler (onto_deck_at (2 ^ 64)) alice (env_at 110 ''s1'') start_db
     = (Inr (Slide_data (Some (blank ''s1'' (2 ^ 64) 110))), far_db)
   \<and> updatePresentation_handler (recount (2 ^ 53)) alice (env_at 125 ''s3'') two_slides_db
     = (Inl RANGE_ERROR, miscounted_db)"
  by (simp add: createSlide_handler_def updatePresentation_handler_def
      updatePresentation_set_def run_defs sample_defs reads_back_def safe_integer_def)

section \<open>Actions and their handlers\<close>

text \<open>
  An action is its handler on every input its schema accepts, and the validation failure,
  with the store untouched, on every other input. The statements about the handlers
  that follow are therefore statements about the actions for the inputs that reach a
  handler; what happens to the other inputs is the subject of claim C9.
\<close>

lemma accepted_input_reaches_handler:
  "schema input \<Longrightarrow> defineAction schema handler input context env = handler input context env"
  by (simp add: defineAction_def)

lemma rejected_input_fails_validation:
  "\<not> schema input \<Longrightarrow> defineAction schema handler input context env d = (Inl INPUT_INVALID, d)"
  by (simp add: defineAction_def throw_def)

section \<open>Authentication\<close>

lemma requireUser_absent:
  "caller context = None \<Longrightarrow> requireUser context = Inl UNAUTHORIZED"
  by (simp add: requireUser_def caller_def)

lemma requireUser_present:
  "caller context = Some u \<Longrightarrow> requireUser context = Inr u"
  by (simp add: requireUser_def caller_def)

text \<open>
  Claim C6. Each of the seven handlers, run for a request whose context carries no
  authenticated user, throws \<open>UNAUTHORIZED\<close> and hands the store back exactly as it got
  it: no table has changed and no query, not even a read, has been issued.
\<close>

theorem unauthenticated_call_leaves_store:
  assumes "caller context = None"
  shows "createPresentation_handler i1 context env d = (Inl UNAUTHORIZED, d)
       \<and> updatePresentation_handler i2 context env d = (Inl UNAUTHORIZED, d)
       \<and> listPresentations_handler i3 context env d = (Inl UNAUTHORIZED, d)
       \<and> createSlide_handler i4 context env d = (Inl UNAUTHORIZED, d)
       \<and> updateSlide_handler i5 context env d = (Inl UNAUTHORIZED, d)
       \<and> deleteSlide_handler i6 context env d = (Inl UNAUTHORIZED, d)
       \<and> listSlides_handler i7 context env d = (Inl UNAUTHORIZED, d)"
  using assms
  by (simp add: createPresentation_handler_def updatePresentation_handler_def
      listPresentations_handler_def createSlide_handler_def updateSlide_handler_def
      deleteSlide_handler_def listSlides_handler_def requireUser_absent throw_def)

theorem unauthenticated_call_leaves_store_witness:
  "caller anonymous = None
   \<and> caller \<lparr>context_locals = None\<rparr> = None
   \<and> createPresentation_handler roadmap anonymous (env_at 200 ''p2'') two_slides_db
       = (Inl UNAUTHORIZED, two_slides_db)
   \<and> listPresentations_handler None anonymous (env_at 200 ''p2'') two_slides_db
       = (Inl UNAUTHORIZED, two_slides_db)
   \<and> deleteSlide_handler \<lparr>ds_id = ''s1'', ds_presentationId = ''p1''\<rparr>
       anonymous (env_at 200 ''p2'') two_slides_db = (Inl UNAUTHORIZED, two_slides_db)
   \<and> listSlides_handler \<lparr>ls_presentationId = ''p1''\<rparr>
       \<lparr>context_locals = None\<rparr> (env_at 200 ''p2'') two_slides_db
       = (Inl UNAUTHORIZED, two_slides_db)"
proof -
  have anon: "caller anonymous = None"
    by (simp add: caller_def anonymous_def)
  have bare: "caller \<lparr>context_locals = None\<rparr> = None"
    by (simp add: caller_def)
  show ?thesis
    using anon bare
      unauthenticated_call_leaves_store [OF anon, of _ "env_at 200 ''p2''" two_slides_db]
      unauthenticated_call_leaves_store [OF bare, of _ "env_at 200 ''p2''" two_slides_db]
    by simp
qed

section \<open>Schema validation\<close>

text \<open>
  Claim C9. An \<open>updatePresentation\<close> input that supplies none of title, description,
  theme, aspectRatio, slideCount, and an \<open>updateSlide\<close> input that supplies none of
  orderIndex, layoutType, title, content, notes, rawData, is rejected by the action's
  schema: the handler does not run, the result is the validation failure (so neither
  \<open>UNAUTHORIZED\<close> nor \<open>NOT_FOUND\<close>), and the store is handed back as it was, with no
  query issued. This holds whoever calls and whatever the store holds.
\<close>

theorem update_without_fields_is_rejected:
  "(up_title i1 = None \<and> up_description i1 = None \<and> up_theme i1 = None
      \<and> up_aspectRatio i1 = None \<and> up_slideCount i1 = None
     \<longrightarrow> server_updatePresentation i1 context env d = (Inl INPUT_INVALID, d))
   \<and> (us_orderIndex i2 = None \<and> us_layoutType i2 = None \<and> us_title i2 = None
      \<and> us_content i2 = None \<and> us_notes i2 = None \<and> us_rawData i2 = None
     \<longrightarrow> server_updateSlide i2 context env d = (Inl INPUT_INVALID, d))"
  by (simp add: server_updatePresentation_def server_updateSlide_def defineAction_def
      updatePresentation_schema_def updateSlide_schema_def throw_def)

theorem update_without_fields_is_rejected_witness:
  "server_updatePresentation
     \<lparr>up_id = ''p1'', up_title = None, up_description = None, up_theme = None,
      up_aspectRatio = None, up_slideCount = None\<rparr>
     anonymous (env_at 200 ''p2'') two_slides_db = (Inl INPUT_INVALID, two_slides_db)
   \<and> server_updateSlide
     \<lparr>us_id = ''s1'', us_presentationId = ''p1'', us_orderIndex = None, us_layoutType = None,
      us_title = None, us_content = None, us_notes = None, us_rawData = None\<rparr>
     bob (env_at 200 ''p2'') two_slides_db = (Inl INPUT_INVALID, two_slides_db)"
  using update_without_fields_is_rejected
     [of "\<lparr>up_id = ''p1'', up_title = None, up_description = None, up_theme = None,
           up_aspectRatio = None, up_slideCount = None\<rparr>"
         anonymous "env_at 200 ''p2''" two_slides_db
         "\<lparr>us_id = ''s1'', us_presentationId = ''p1'', us_orderIndex = None,
           us_layoutType = None, us_title = None, us_content = None, us_notes = None,
           us_rawData = None\<rparr>"]
    update_without_fields_is_rejected
     [of _ bob "env_at 200 ''p2''" two_slides_db
         "\<lparr>us_id = ''s1'', us_presentationId = ''p1'', us_orderIndex = None,
           us_layoutType = None, us_title = None, us_content = None, us_notes = None,
           us_rawData = None\<rparr>"]
  by simp

section \<open>Ownership\<close>

text \<open>
  The three outcomes of the ownership guard: no row for the user and the identifier, a row
  that cannot be read back, a row that is handed over.
\<close>

lemma getOwnedPresentation_missing:
  "\<not> owns d userId presentationId \<Longrightarrow>
   getOwnedPresentation presentationId userId d = (Inl NOT_FOUND, issue (SELECT PresentationsTable) d)"
  by (simp add: owns_def getOwnedPresentation_def await_def select_Presentations_def
      rows_read_def first_row_def throw_def filter_empty_conv split: list.splits)

lemma getOwnedPresentation_unreadable:
  "\<not> guard_reads_back d userId presentationId \<Longrightarrow>
   getOwnedPresentation presentationId userId d = (Inl RANGE_ERROR, issue (SELECT PresentationsTable) d)"
  by (auto simp: guard_reads_back_def getOwnedPresentation_def await_def
      select_Presentations_def rows_read_def list_all_iff)

lemma getOwnedPresentation_found:
  assumes "owns d userId presentationId" and "guard_reads_back d userId presentationId"
  shows "\<exists>p. getOwnedPresentation presentationId userId d = (Inr p, issue (SELECT PresentationsTable) d)"
proof -
  from assms(1)
  have "filter (\<lambda>row. p_id row = presentationId \<and> p_userId row = userId) (Presentations d) \<noteq> []"
    by (auto simp: owns_def filter_empty_conv)
  moreover from assms(2)
  have "list_all presentation_reads_back
          (filter (\<lambda>row. p_id row = presentationId \<and> p_userId row = userId) (Presentations d))"
    by (auto simp: guard_reads_back_def list_all_iff)
  ultimately show ?thesis
    by (auto simp: getOwnedPresentation_def await_def select_Presentations_def rows_read_def
      first_row_def return_def neq_Nil_conv)
qed

text \<open>A guard that lets the handler go on found a row of the user and could read it.\<close>

lemma getOwnedPresentation_passed:
  assumes "getOwnedPresentation presentationId userId d = (Inr p, d')"
  shows "owns d userId presentationId" and "guard_reads_back d userId presentationId"
    and "d' = issue (SELECT PresentationsTable) d"
proof -
  show o: "owns d userId presentationId"
    using assms getOwnedPresentation_missing [of d userId presentationId] by auto
  show g: "guard_reads_back d userId presentationId"
    using assms getOwnedPresentation_unreadable [of d userId presentationId] by auto
  from getOwnedPresentation_found [OF o g] assms
  show "d' = issue (SELECT PresentationsTable) d" by auto
qed

text \<open>
  Claim C5. \<open>updatePresentation\<close>, \<open>createSlide\<close>, \<open>updateSlide\<close>, \<open>deleteSlide\<close> and
  \<open>listSlides\<close> address a presentation by identifier. When no row of \<open>Presentations\<close> has
  both that identifier and the caller's user identifier, each of them throws \<open>NOT_FOUND\<close>
  after the one read of the ownership guard, and leaves both tables as they were. The
  hypothesis does not tell an identifier that no row has from one that a row of another
  user has, and neither does the result; \<open>listSlides\<close> in particular throws instead of
  returning an empty list.
\<close>

theorem foreign_or_missing_presentation_not_found:
  assumes "caller context = Some u"
      and "\<not> owns d (user_id u) presentationId"
  shows "(up_id upd = presentationId \<longrightarrow>
            updatePresentation_handler upd context env d
              = (Inl NOT_FOUND, issue (SELECT PresentationsTable) d))
       \<and> (cs_presentationId cre = presentationId \<longrightarrow>
            createSlide_handler cre context env d
              = (Inl NOT_FOUND, issue (SELECT PresentationsTable) d))
       \<and> (us_presentationId usl = presentationId \<longrightarrow>
            updateSlide_handler usl context env d
              = (Inl NOT_FOUND, issue (SELECT PresentationsTable) d))
       \<and> (ds_presentationId del = presentationId \<longrightarrow>
            deleteSlide_handler del context env d
              = (Inl NOT_FOUND, issue (SELECT PresentationsTable) d))
       \<and> (ls_presentationId lst = presentationId \<longrightarrow>
            listSlides_handler lst context env d
              = (Inl NOT_FOUND, issue (SELECT PresentationsTable) d))"
  using assms
  by (simp add: updatePresentation_handler_def createSlide_handler_def updateSlide_handler_def
      deleteSlide_handler_def listSlides_handler_def requireUser_present
      getOwnedPresentation_missing await_def)

theorem foreign_or_missing_presentation_not_found_witness:
  "caller bob = Some \<lparr>user_id = ''bob''\<rparr>
   \<and> \<not> owns two_slides_db ''bob'' ''p1'' \<and> \<not> owns two_slides_db ''bob'' ''p0''
   \<and> ''p1'' \<in> set (map p_id (Presentations two_slides_db))
   \<and> ''p0'' \<notin> set (map p_id (Presentations two_slides_db))
   \<and> listSlides_handler \<lparr>ls_presentationId = ''p1''\<rparr> bob (env_at 200 ''p2'') two_slides_db
       = (Inl NOT_FOUND, issue (SELECT PresentationsTable) two_slides_db)
   \<and> listSlides_handler \<lparr>ls_presentationId = ''p0''\<rparr> bob (env_at 200 ''p2'') two_slides_db
       = (Inl NOT_FOUND, issue (SELECT PresentationsTable) two_slides_db)
   \<and> deleteSlide_handler \<lparr>ds_id = ''s1'', ds_presentationId = ''p1''\<rparr> bob (env_at 200 ''p2'')
       two_slides_db
       = (Inl NOT_FOUND, issue (SELECT PresentationsTable) two_slides_db)"
proof -
  have b: "caller bob = Some \<lparr>user_id = ''bob''\<rparr>"
    by (simp add: caller_def bob_def)
  have n1: "\<not> owns two_slides_db (user_id \<lparr>user_id = ''bob''\<rparr>) ''p1''"
    by (simp add: owns_def two_slides_db_def deck_def)
  have n0: "\<not> owns two_slides_db (user_id \<lparr>user_id = ''bob''\<rparr>) ''p0''"
    by (simp add: owns_def two_slides_db_def deck_def)
  have ids: "''p1'' \<in> set (map p_id (Presentations two_slides_db))
           \<and> ''p0'' \<notin> set (map p_id (Presentations two_slides_db))"
    by (simp add: two_slides_db_def deck_def)
  show ?thesis
    using b n1 n0 ids
      foreign_or_missing_presentation_not_found [OF b n1,
        where env = "env_at 200 ''p2''" and del = "\<lparr>ds_id = ''s1'', ds_presentationId = ''p1''\<rparr>"
          and lst = "\<lparr>ls_presentationId = ''p1''\<rparr>"]
      foreign_or_missing_presentation_not_found [OF b n0,
        where env = "env_at 200 ''p2''" and lst = "\<lparr>ls_presentationId = ''p0''\<rparr>"]
    by simp
qed

section \<open>Slides that are not there\<close>




section \<open>Creating a slide\<close>

text \<open>
  What a successful \<open>createSlide\<close> has done, and when \<open>createSlide\<close> succeeds: the caller
  is authenticated and owns the presentation, the generated identifier is not yet the
  primary key of a slide, and the rows the call reads (the presentation, the existing
  slides of the presentation, the new slide) can be read back.
\<close>

lemma createSlide_success:
  fixes input :: createSlide_input and env :: env and d :: db
  defines "slide \<equiv>
             \<lparr>s_id = randomUUID env,
              s_presentationId = cs_presentationId input,
              s_orderIndex = nextOrder (cs_orderIndex input)
                 (map s_orderIndex (slides_of d (cs_presentationId input))),
              s_layoutType = cs_layoutType input,
              s_title = cs_title input,
              s_content = cs_content input,
              s_notes = cs_notes input,
              s_rawData = cs_rawData input,
              s_createdAt = new_Date env,
              s_updatedAt = new_Date env\<rparr>"
  assumes "createSlide_handler input context env d = (Inr r, d')"
  shows "\<exists>u. caller context = Some u \<and> owns d (user_id u) (cs_presentationId input)"
    and "randomUUID env \<notin> set (map s_id (Slides d))"
    and "r = Slide_data (Some slide)"
    and "Slides d' = Slides d @ [slide]"
    and "Presentations d' =
           map (\<lambda>row. if p_id row = cs_presentationId input
                  then row\<lparr>p_slideCount :=
                             Some (int (length (slides_of d (cs_presentationId input))) + 1),
                           p_updatedAt := new_Date env\<rparr>
                  else row) (Presentations d)"
    and "issued d' = issued d @ [SELECT PresentationsTable, SELECT SlidesTable,
                                 INSERT SlidesTable, UPDATE PresentationsTable]"
    and "list_all slide_reads_back (slides_of d (cs_presentationId input))"
    and "slide_reads_back slide"
proof -
  obtain u where u: "caller context = Some u"
    using assms(2)
    by (cases "caller context")
       (simp_all add: createSlide_handler_def requireUser_absent throw_def)
  obtain g where g: "getOwnedPresentation (cs_presentationId input) (user_id u) d = g"
    by simp
  obtain p where p: "getOwnedPresentation (cs_presentationId input) (user_id u) d
      = (Inr p, issue (SELECT PresentationsTable) d)"
  proof (cases g)
    case (Pair x d1)
    show ?thesis
    proof (cases x)
      case (Inl e)
      with Pair g assms(2) u show ?thesis
        by (simp add: createSlide_handler_def requireUser_present await_def)
    next
      case (Inr p)
      with Pair g getOwnedPresentation_passed(3) [of "cs_presentationId input" "user_id u" d p d1]
      show ?thesis by (auto intro: that)
    qed
  qed
  from getOwnedPresentation_passed(1) [OF p] u
  show "\<exists>u. caller context = Some u \<and> owns d (user_id u) (cs_presentationId input)"
    by blast
  from assms(2) u p show "randomUUID env \<notin> set (map s_id (Slides d))"
    and "r = Slide_data (Some slide)"
    and "Slides d' = Slides d @ [slide]"
    and "Presentations d' =
           map (\<lambda>row. if p_id row = cs_presentationId input
                  then row\<lparr>p_slideCount :=
                             Some (int (length (slides_of d (cs_presentationId input))) + 1),
                           p_updatedAt := new_Date env\<rparr>
                  else row) (Presentations d)"
    and "issued d' = issued d @ [SELECT PresentationsTable, SELECT SlidesTable,
                                 INSERT SlidesTable, UPDATE PresentationsTable]"
    and "list_all slide_reads_back (slides_of d (cs_presentationId input))"
    and "slide_reads_back slide"
    unfolding slide_def
    by (auto simp: createSlide_handler_def requireUser_present await_def select_Slides_def
        insert_Slides_returning_def update_Presentations_def rows_read_def issue_def
        first_row_def return_def slides_of_def Let_def split: if_splits)
qed

lemma createSlide_succeeds:
  assumes "caller context = Some u"
      and "owns d (user_id u) (cs_presentationId input)"
      and "guard_reads_back d (user_id u) (cs_presentationId input)"
      and "list_all slide_reads_back (slides_of d (cs_presentationId input))"
      and "randomUUID env \<notin> set (map s_id (Slides d))"
      and "reads_back (nextOrder (cs_orderIndex input)
             (map s_orderIndex (slides_of d (cs_presentationId input))))"
  shows "\<exists>r d'. createSlide_handler input context env d = (Inr r, d')"
proof -
  obtain p where p: "getOwnedPresentation (cs_presentationId input) (user_id u) d
      = (Inr p, issue (SELECT PresentationsTable) d)"
    using getOwnedPresentation_found [OF assms(2,3)] by blast
  from assms(1,4,5,6) p show ?thesis
    by (simp add: createSlide_handler_def requireUser_present await_def select_Slides_def
        insert_Slides_returning_def update_Presentations_def rows_read_def slide_reads_back_def
        slides_of_def issue_def return_def Let_def)
qed

text \<open>
  A \<open>createSlide\<close> that throws after its insert: in \<open>edge_db\<close> the one slide has order
  index \<open>2^53 - 1\<close>, the next index is \<open>2^53\<close>, the slide is inserted with it, and the call
  throws when the inserted row is read back. The parent keeps its \<open>slideCount\<close> of 1 and
  there are two slides.
\<close>

lemma createSlide_throws_after_insert:
  "slideCount_in_sync edge_db
   \<and> createSlide_handler onto_deck alice (env_at 120 ''s2'') edge_db
     = (Inl RANGE_ERROR,
        edge_db\<lparr>Slides := [blank ''s1'' (2 ^ 53 - 1) 110, blank ''s2'' (2 ^ 53) 120],
                issued := issued edge_db @ [SELECT PresentationsTable, SELECT SlidesTable,
                            INSERT SlidesTable]\<rparr>)
   \<and> \<not> slideCount_in_sync (snd (createSlide_handler onto_deck alice (env_at 120 ''s2'') edge_db))"
  by (simp add: createSlide_handler_def run_defs sample_defs slideCount_in_sync_def slides_of_def
      reads_back_def safe_integer_def to_double_edge)

lemma Math_max_is_Max: "Math_max x xs = Max (set (x # xs))"
  unfolding Math_max_def by (rule Max.set_eq_fold [symmetric])

lemma nextOrder_default:
  "nextOrder None xs = (if xs = [] then 1 else to_double (Max (set xs) + 1))"
  by (cases xs) (simp_all add: nextOrder_def number_plus_def Math_max_is_Max del: set_simps)

text \<open>
  Claim C4 says that the new order index is the maximum of the existing order indices
  plus 1. The handler adds in JavaScript's arithmetic. In \<open>far_db\<close> the one slide of the
  presentation has the order index \<open>2^64\<close>, which the schema of \<open>createSlide\<close> accepts;
  the next \<open>createSlide\<close> without an order index succeeds and creates a slide with the
  order index \<open>2^64\<close> again, not \<open>2^64 + 1\<close>.
\<close>

theorem default_orderIndex_is_max_plus_one_counterexample:
  "caller alice = Some \<lparr>user_id = ''alice''\<rparr>
   \<and> owns far_db ''alice'' ''p1''
   \<and> cs_presentationId onto_deck = ''p1''
   \<and> cs_orderIndex onto_deck = None
   \<and> map s_orderIndex (slides_of far_db ''p1'') = [2 ^ 64]
   \<and> fst (createSlide_handler onto_deck alice (env_at 120 ''s2'') far_db)
       = Inr (Slide_data (Some (blank ''s2'' (2 ^ 64) 120)))
   \<and> s_orderIndex (blank ''s2'' (2 ^ 64) 120) \<noteq> Max (set [2 ^ 64]) + 1"
  by (simp add: createSlide_handler_def run_defs sample_defs caller_def owns_def slides_of_def
      reads_back_def safe_integer_def to_double_above)

text \<open>
  Claim C4, amended. For a \<open>createSlide\<close> call without an explicit order index:
  if the call succeeds, the order index of the created slide is 1 when no slide
  references the presentation, and otherwise the maximum of the order indices of the
  slides that reference it plus 1 in double-precision arithmetic, which is that maximum
  plus 1 whenever the sum is a safe integer. And the call does succeed, with that order
  index, when the caller owns the presentation, the generated identifier is one that no
  slide has yet, the row of the presentation and the existing slides of the presentation
  can be read back, and the maximum plus 1 is a safe integer.
\<close>

theorem default_orderIndex_is_max_plus_one:
  assumes "cs_orderIndex input = None"
  shows "(createSlide_handler input context env d = (Inr r, d') \<longrightarrow>
           (\<exists>slide. r = Slide_data (Some slide)
              \<and> slide \<in> set (Slides d')
              \<and> s_id slide = randomUUID env
              \<and> s_orderIndex slide =
                  (if slides_of d (cs_presentationId input) = [] then 1
                   else to_double
                     (Max (set (map s_orderIndex (slides_of d (cs_presentationId input)))) + 1))
              \<and> (slides_of d (cs_presentationId input) \<noteq> []
                  \<and> safe_integer
                      (Max (set (map s_orderIndex (slides_of d (cs_presentationId input)))) + 1)
                 \<longrightarrow> s_orderIndex slide =
                      Max (set (map s_orderIndex (slides_of d (cs_presentationId input)))) + 1)))
       \<and> (caller context = Some u
          \<and> owns d (user_id u) (cs_presentationId input)
          \<and> guard_reads_back d (user_id u) (cs_presentationId input)
          \<and> list_all slide_reads_back (slides_of d (cs_presentationId input))
          \<and> randomUUID env \<notin> set (map s_id (Slides d))
          \<and> (slides_of d (cs_presentationId input) \<noteq> []
              \<longrightarrow> safe_integer
                    (Max (set (map s_orderIndex (slides_of d (cs_presentationId input)))) + 1))
         \<longrightarrow> (\<exists>slide d2.
                createSlide_handler input context env d = (Inr (Slide_data (Some slide)), d2)
              \<and> s_orderIndex slide =
                  (if slides_of d (cs_presentationId input) = [] then 1
                   else Max (set (map s_orderIndex (slides_of d (cs_presentationId input)))) + 1)))"
proof (intro conjI impI)
  assume run: "createSlide_handler input context env d = (Inr r, d')"
  from createSlide_success(3,4) [OF run] assms
  show "\<exists>slide. r = Slide_data (Some slide)
              \<and> slide \<in> set (Slides d')
              \<and> s_id slide = randomUUID env
              \<and> s_orderIndex slide =
                  (if slides_of d (cs_presentationId input) = [] then 1
                   else to_double
                     (Max (set (map s_orderIndex (slides_of d (cs_presentationId input)))) + 1))
              \<and> (slides_of d (cs_presentationId input) \<noteq> []
                  \<and> safe_integer
                      (Max (set (map s_orderIndex (slides_of d (cs_presentationId input)))) + 1)
                 \<longrightarrow> s_orderIndex slide =
                      Max (set (map s_orderIndex (slides_of d (cs_presentationId input)))) + 1)"
    by (auto simp: nextOrder_default to_double_safe)
next
  assume h: "caller context = Some u
          \<and> owns d (user_id u) (cs_presentationId input)
          \<and> guard_reads_back d (user_id u) (cs_presentationId input)
          \<and> list_all slide_reads_back (slides_of d (cs_presentationId input))
          \<and> randomUUID env \<notin> set (map s_id (Slides d))
          \<and> (slides_of d (cs_presentationId input) \<noteq> []
              \<longrightarrow> safe_integer
                    (Max (set (map s_orderIndex (slides_of d (cs_presentationId input)))) + 1))"
  have next_order: "nextOrder (cs_orderIndex input)
          (map s_orderIndex (slides_of d (cs_presentationId input)))
        = (if slides_of d (cs_presentationId input) = [] then 1
           else Max (set (map s_orderIndex (slides_of d (cs_presentationId input)))) + 1)"
    using assms h by (simp add: nextOrder_default to_double_safe)
  have "safe_integer (nextOrder (cs_orderIndex input)
          (map s_orderIndex (slides_of d (cs_presentationId input))))"
    unfolding next_order using h by (simp add: safe_integer_def)
  then have "reads_back (nextOrder (cs_orderIndex input)
          (map s_orderIndex (slides_of d (cs_presentationId input))))"
    by (rule safe_reads_back)
  with h obtain r2 d2 where run: "createSlide_handler input context env d = (Inr r2, d2)"
    using createSlide_succeeds [of "context" u d input env] by blast
  from createSlide_success(3) [OF run] run next_order
  show "\<exists>slide d2.
                createSlide_handler input context env d = (Inr (Slide_data (Some slide)), d2)
              \<and> s_orderIndex slide =
                  (if slides_of d (cs_presentationId input) = [] then 1
                   else Max (set (map s_orderIndex (slides_of d (cs_presentationId input)))) + 1)"
    by simp
qed

theorem default_orderIndex_is_max_plus_one_witness:
  "cs_orderIndex onto_deck = None
   \<and> caller alice = Some \<lparr>user_id = ''alice''\<rparr>
   \<and> owns two_slides_db ''alice'' ''p1''
   \<and> guard_reads_back two_slides_db ''alice'' ''p1''
   \<and> list_all slide_reads_back (slides_of two_slides_db ''p1'')
   \<and> ''s3'' \<notin> set (map s_id (Slides two_slides_db))
   \<and> map s_orderIndex (slides_of two_slides_db ''p1'') = [1, 2]
   \<and> safe_integer (2 + 1)
   \<and> (\<exists>slide d2. createSlide_handler onto_deck alice (env_at 140 ''s3'') two_slides_db
                     = (Inr (Slide_data (Some slide)), d2)
                 \<and> s_orderIndex slide = 3)
   \<and> (\<exists>slide d2. createSlide_handler onto_deck alice (env_at 110 ''s1'') start_db
                     = (Inr (Slide_data (Some slide)), d2)
                 \<and> s_orderIndex slide = 1)
   \<and> createSlide_handler onto_deck alice (env_at 120 ''s2'') far_db
       = (Inr (Slide_data (Some (blank ''s2'' (2 ^ 64) 120))),
          far_db\<lparr>Presentations := [deck\<lparr>p_slideCount := Some 2, p_updatedAt := 120\<rparr>],
                 Slides := [blank ''s1'' (2 ^ 64) 110, blank ''s2'' (2 ^ 64) 120],
                 issued := issued far_db @ [SELECT PresentationsTable, SELECT SlidesTable,
                            INSERT SlidesTable, UPDATE PresentationsTable]\<rparr>)
   \<and> to_double (Max (set (map s_orderIndex (slides_of far_db ''p1''))) + 1) = 2 ^ 64"
proof -
  have n: "cs_orderIndex onto_deck = None"
    by (simp add: onto_deck_def)
  have p: "cs_presentationId onto_deck = ''p1''"
    by (simp add: onto_deck_def)
  have a: "caller alice = Some \<lparr>user_id = ''alice''\<rparr>"
    by (simp add: caller_def alice_def)
  have o: "owns two_slides_db ''alice'' ''p1''" "owns start_db ''alice'' ''p1''"
    by (simp_all add: owns_def two_slides_db_def start_db_def deck_def)
  have g: "guard_reads_back two_slides_db ''alice'' ''p1''"
    "guard_reads_back start_db ''alice'' ''p1''"
    by (simp_all add: guard_reads_back_def presentation_reads_back_def reads_back_def
        safe_integer_def two_slides_db_def start_db_def deck_def)
  have f: "''s3'' \<notin> set (map s_id (Slides two_slides_db))"
    "''s1'' \<notin> set (map s_id (Slides start_db))"
    by (simp_all add: two_slides_db_def start_db_def blank_def)
  have xs: "slides_of two_slides_db ''p1'' = [blank ''s1'' 1 110, blank ''s2'' 2 120]"
    "slides_of start_db ''p1'' = []"
    "slides_of far_db ''p1'' = [blank ''s1'' (2 ^ 64) 110]"
    by (simp_all add: slides_of_def sample_defs)
  have l: "list_all slide_reads_back (slides_of two_slides_db ''p1'')"
    by (simp add: xs slide_reads_back_def reads_back_def safe_integer_def blank_def)
  have far: "createSlide_handler onto_deck alice (env_at 120 ''s2'') far_db
       = (Inr (Slide_data (Some (blank ''s2'' (2 ^ 64) 120))),
          far_db\<lparr>Presentations := [deck\<lparr>p_slideCount := Some 2, p_updatedAt := 120\<rparr>],
                 Slides := [blank ''s1'' (2 ^ 64) 110, blank ''s2'' (2 ^ 64) 120],
                 issued := issued far_db @ [SELECT PresentationsTable, SELECT SlidesTable,
                            INSERT SlidesTable, UPDATE PresentationsTable]\<rparr>)"
    by (simp add: createSlide_handler_def run_defs sample_defs reads_back_def safe_integer_def
        to_double_above)
  have s: "safe_integer (2 + 1)"
    by (simp add: safe_integer_def)
  show ?thesis
    using n a o(1) g(1) l f(1) s far
      default_orderIndex_is_max_plus_one [OF n, of alice "env_at 140 ''s3''" two_slides_db
        _ _ "\<lparr>user_id = ''alice''\<rparr>", THEN conjunct2]
      default_orderIndex_is_max_plus_one [OF n, of alice "env_at 110 ''s1''" start_db
        _ _ "\<lparr>user_id = ''alice''\<rparr>", THEN conjunct2]
      default_orderIndex_is_max_plus_one [OF n, of alice "env_at 120 ''s2''" far_db
        _ _ "\<lparr>user_id = ''alice''\<rparr>", THEN conjunct1, rule_format, OF far]
      o(2) g(2) f(2)
    by (simp add: p xs blank_def env_at_def)
qed

text \<open>
  Claim C2 says that the new order index is \<open>N + 1\<close> for a presentation with \<open>N > 0\<close>
  slides. The handler takes the maximum of the existing indices, not their number: in
  \<open>one_deleted_db\<close>, where the first of two slides was deleted, the presentation has one
  slide, with order index 2, and the next slide gets order index 3.
\<close>

theorem default_orderIndex_by_count_counterexample:
  "caller alice = Some \<lparr>user_id = ''alice''\<rparr>
   \<and> owns one_deleted_db ''alice'' ''p1''
   \<and> cs_presentationId onto_deck = ''p1''
   \<and> cs_orderIndex onto_deck = None
   \<and> length (slides_of one_deleted_db ''p1'') = 1
   \<and> fst (createSlide_handler onto_deck alice (env_at 140 ''s3'') one_deleted_db)
       = Inr (Slide_data (Some (blank ''s3'' 3 140)))
   \<and> s_orderIndex (blank ''s3'' 3 140) \<noteq> int (length (slides_of one_deleted_db ''p1'')) + 1"
  by (simp add: createSlide_handler_def run_defs sample_defs caller_def owns_def slides_of_def
      reads_back_def safe_integer_def to_double_safe)

text \<open>
  Claim C2, amended. A \<open>createSlide\<close> call without an explicit order index, by the owner
  of a presentation with \<open>N\<close> slides and with a generated identifier that no slide has
  yet, succeeds and creates a slide with order index 1 when \<open>N = 0\<close>, and with order index
  \<open>N + 1\<close> when \<open>N > 0\<close> and the largest existing order index is \<open>N\<close>, provided that the
  row of the presentation and the existing slides of the presentation can be read back
  and \<open>N + 1\<close> is a safe integer.
\<close>

theorem default_orderIndex_by_count:
  assumes "caller context = Some u"
      and "owns d (user_id u) (cs_presentationId input)"
      and "guard_reads_back d (user_id u) (cs_presentationId input)"
      and "list_all slide_reads_back (slides_of d (cs_presentationId input))"
      and "randomUUID env \<notin> set (map s_id (Slides d))"
      and "cs_orderIndex input = None"
      and "slides_of d (cs_presentationId input) \<noteq> [] \<longrightarrow>
             Max (set (map s_orderIndex (slides_of d (cs_presentationId input))))
               = int (length (slides_of d (cs_presentationId input)))"
      and "safe_integer (int (length (slides_of d (cs_presentationId input))) + 1)"
  shows "\<exists>slide d'.
           createSlide_handler input context env d = (Inr (Slide_data (Some slide)), d')
         \<and> slide \<in> set (Slides d')
         \<and> s_id slide = randomUUID env
         \<and> s_orderIndex slide =
             (if length (slides_of d (cs_presentationId input)) = 0 then 1
              else int (length (slides_of d (cs_presentationId input))) + 1)"
proof -
  have next_order: "nextOrder (cs_orderIndex input)
          (map s_orderIndex (slides_of d (cs_presentationId input)))
        = (if length (slides_of d (cs_presentationId input)) = 0 then 1
           else int (length (slides_of d (cs_presentationId input))) + 1)"
    using assms(6,7,8) by (simp add: nextOrder_default to_double_safe)
  have "safe_integer (nextOrder (cs_orderIndex input)
          (map s_orderIndex (slides_of d (cs_presentationId input))))"
    unfolding next_order using assms(8) by (simp add: safe_integer_def)
  then have "reads_back (nextOrder (cs_orderIndex input)
          (map s_orderIndex (slides_of d (cs_presentationId input))))"
    by (rule safe_reads_back)
  then obtain r d' where run: "createSlide_handler input context env d = (Inr r, d')"
    using createSlide_succeeds [OF assms(1-5)] by blast
  from createSlide_success(3,4) [OF run] run next_order show ?thesis
    by auto
qed

theorem default_orderIndex_by_count_witness:
  "caller alice = Some \<lparr>user_id = ''alice''\<rparr>
   \<and> owns two_slides_db ''alice'' ''p1''
   \<and> guard_reads_back two_slides_db ''alice'' ''p1''
   \<and> list_all slide_reads_back (slides_of two_slides_db ''p1'')
   \<and> ''s3'' \<notin> set (map s_id (Slides two_slides_db))
   \<and> cs_orderIndex onto_deck = None
   \<and> Max (set (map s_orderIndex (slides_of two_slides_db ''p1'')))
       = int (length (slides_of two_slides_db ''p1''))
   \<and> length (slides_of two_slides_db ''p1'') = 2
   \<and> safe_integer (2 + 1)
   \<and> (\<exists>slide d'. createSlide_handler onto_deck alice (env_at 140 ''s3'') two_slides_db
                     = (Inr (Slide_data (Some slide)), d')
                 \<and> slide \<in> set (Slides d') \<and> s_id slide = ''s3'' \<and> s_orderIndex slide = 3)"
proof -
  have a: "caller alice = Some \<lparr>user_id = ''alice''\<rparr>"
    by (simp add: caller_def alice_def)
  have o: "owns two_slides_db (user_id \<lparr>user_id = ''alice''\<rparr>) (cs_presentationId onto_deck)"
    by (simp add: owns_def two_slides_db_def deck_def onto_deck_def)
  have g: "guard_reads_back two_slides_db (user_id \<lparr>user_id = ''alice''\<rparr>)
      (cs_presentationId onto_deck)"
    by (simp add: guard_reads_back_def presentation_reads_back_def reads_back_def
        safe_integer_def two_slides_db_def deck_def onto_deck_def)
  have f: "randomUUID (env_at 140 ''s3'') \<notin> set (map s_id (Slides two_slides_db))"
    by (simp add: env_at_def two_slides_db_def blank_def)
  have n: "cs_orderIndex onto_deck = None"
    by (simp add: onto_deck_def)
  have p: "cs_presentationId onto_deck = ''p1''"
    by (simp add: onto_deck_def)
  have xs: "slides_of two_slides_db ''p1'' = [blank ''s1'' 1 110, blank ''s2'' 2 120]"
    by (simp add: slides_of_def two_slides_db_def blank_def)
  have l: "list_all slide_reads_back (slides_of two_slides_db (cs_presentationId onto_deck))"
    by (simp add: p xs slide_reads_back_def reads_back_def safe_integer_def blank_def)
  have m: "slides_of two_slides_db (cs_presentationId onto_deck) \<noteq> [] \<longrightarrow>
      Max (set (map s_orderIndex (slides_of two_slides_db (cs_presentationId onto_deck))))
       = int (length (slides_of two_slides_db (cs_presentationId onto_deck)))"
    by (simp add: p xs blank_def)
  have s: "safe_integer (int (length (slides_of two_slides_db (cs_presentationId onto_deck))) + 1)"
    by (simp add: p xs safe_integer_def)
  show ?thesis
    using a o g l f n m s default_orderIndex_by_count [OF a o g l f n m s]
    by (simp add: p xs blank_def env_at_def)
qed

text \<open>
  Without the provisos the call need not succeed: in \<open>miscounted_db\<close> the largest order
  index is the number of slides, and the call throws because the guard cannot read the
  row of the presentation back.
\<close>

lemma createSlide_throws_at_guard:
  "Max (set (map s_orderIndex (slides_of miscounted_db ''p1'')))
     = int (length (slides_of miscounted_db ''p1''))
   \<and> createSlide_handler onto_deck alice (env_at 140 ''s3'') miscounted_db
     = (Inl RANGE_ERROR, issue (SELECT PresentationsTable) miscounted_db)"
  by (simp add: createSlide_handler_def run_defs sample_defs slides_of_def
      reads_back_def safe_integer_def)

section \<open>The cached count of the parent\<close>

text \<open>
  Claim C3 says that a successful \<open>createSlide\<close> leaves the stored \<open>slideCount\<close> one
  higher than it was stored before. The handler does not read the stored count: it stores
  the number of slides it selected plus one. In \<open>one_deleted_db\<close> the stored count is 2
  and one slide is left; after \<open>createSlide\<close> the stored count is 2 again, not 3.
\<close>

theorem createSlide_stored_count_counterexample:
  "map p_slideCount (Presentations one_deleted_db) = [Some 2]
   \<and> length (slides_of one_deleted_db ''p1'') = 1
   \<and> fst (createSlide_handler onto_deck alice (env_at 140 ''s3'') one_deleted_db)
       = Inr (Slide_data (Some (blank ''s3'' 3 140)))
   \<and> map p_slideCount
        (Presentations (snd (createSlide_handler onto_deck alice (env_at 140 ''s3'') one_deleted_db)))
       = [Some 2]"
  by (simp add: createSlide_handler_def run_defs sample_defs slides_of_def
      reads_back_def safe_integer_def to_double_safe)

text \<open>
  Claim C3, amended. After a successful \<open>createSlide\<close> the stored \<open>slideCount\<close> of the
  presentation is the number of slides that referenced it before the call plus 1, which
  is the count stored before plus 1 whenever that stored count was the number of its
  slides, and its \<open>updatedAt\<close> is the time of the call. The presentation exists, and every
  other row of \<open>Presentations\<close> is as before.
\<close>

theorem createSlide_recounts_parent:
  assumes "createSlide_handler input context env d = (Inr r, d')"
  shows "(\<exists>p \<in> set (Presentations d). p_id p = cs_presentationId input)
       \<and> list_all2
           (\<lambda>old new.
              if p_id old = cs_presentationId input
              then new = old\<lparr>p_slideCount :=
                               Some (int (length (slides_of d (cs_presentationId input))) + 1),
                             p_updatedAt := new_Date env\<rparr>
                 \<and> (p_slideCount old = Some (int (length (slides_of d (cs_presentationId input))))
                      \<longrightarrow> p_slideCount new = Some (the (p_slideCount old) + 1))
              else new = old)
           (Presentations d) (Presentations d')"
proof -
  from createSlide_success(1) [OF assms]
  have "\<exists>p \<in> set (Presentations d). p_id p = cs_presentationId input"
    by (auto simp: owns_def)
  moreover have "list_all2
           (\<lambda>old new.
              if p_id old = cs_presentationId input
              then new = old\<lparr>p_slideCount :=
                               Some (int (length (slides_of d (cs_presentationId input))) + 1),
                             p_updatedAt := new_Date env\<rparr>
                 \<and> (p_slideCount old = Some (int (length (slides_of d (cs_presentationId input))))
                      \<longrightarrow> p_slideCount new = Some (the (p_slideCount old) + 1))
              else new = old)
           (Presentations d) (Presentations d')"
    unfolding createSlide_success(5) [OF assms]
    by (simp add: list_all2_map2 list_all2_same)
  ultimately show ?thesis by blast
qed


theorem createSlide_recounts_parent_witness:
  "createSlide_handler onto_deck alice (env_at 140 ''s3'') two_slides_db
     = (Inr (Slide_data (Some (blank ''s3'' 3 140))),
        two_slides_db
          \<lparr>Presentations := [deck\<lparr>p_slideCount := Some 3, p_updatedAt := 140\<rparr>],
           Slides := [blank ''s1'' 1 110, blank ''s2'' 2 120, blank ''s3'' 3 140],
           issued := issued two_slides_db @ [SELECT PresentationsTable, SELECT SlidesTable,
                       INSERT SlidesTable, UPDATE PresentationsTable]\<rparr>)
   \<and> length (slides_of two_slides_db ''p1'') = 2
   \<and> map p_slideCount (Presentations two_slides_db) = [Some 2]
   \<and> list_all2 (\<lambda>old new. new = old\<lparr>p_slideCount := Some 3, p_updatedAt := 140\<rparr>
                          \<and> p_slideCount new = Some (the (p_slideCount old) + 1))
        (Presentations two_slides_db)
        [deck\<lparr>p_slideCount := Some 3, p_updatedAt := 140\<rparr>]"
proof -
  have run: "createSlide_handler onto_deck alice (env_at 140 ''s3'') two_slides_db
     = (Inr (Slide_data (Some (blank ''s3'' 3 140))),
        two_slides_db
          \<lparr>Presentations := [deck\<lparr>p_slideCount := Some 3, p_updatedAt := 140\<rparr>],
           Slides := [blank ''s1'' 1 110, blank ''s2'' 2 120, blank ''s3'' 3 140],
           issued := issued two_slides_db @ [SELECT PresentationsTable, SELECT SlidesTable,
                       INSERT SlidesTable, UPDATE PresentationsTable]\<rparr>)"
    by (simp add: createSlide_handler_def run_defs sample_defs reads_back_def safe_integer_def
        to_double_safe)
  have xs: "slides_of two_slides_db ''p1'' = [blank ''s1'' 1 110, blank ''s2'' 2 120]"
    by (simp add: slides_of_def sample_defs)
  show ?thesis
    using run createSlide_recounts_parent [OF run]
    by (simp add: xs onto_deck_def env_at_def two_slides_db_def deck_def)
qed

text \<open>
  Claim C10. \<open>deleteSlide\<close> leaves the \<open>Presentations\<close> table as it was, whether it
  succeeds or not: the parent keeps its \<open>slideCount\<close>, its \<open>updatedAt\<close> and every other
  field. A successful \<open>createSlide\<close>, in contrast, rewrites \<open>slideCount\<close> and \<open>updatedAt\<close>
  of the parent, which exists.
\<close>

theorem deleteSlide_leaves_parent:
  "(deleteSlide_handler del context env d = (r, d') \<longrightarrow> Presentations d' = Presentations d)
   \<and> (createSlide_handler cre context env d = (Inr r2, d2) \<longrightarrow>
        Presentations d2 =
          map (\<lambda>row. if p_id row = cs_presentationId cre
                 then row\<lparr>p_slideCount := Some (int (length (slides_of d (cs_presentationId cre))) + 1),
                          p_updatedAt := new_Date env\<rparr>
                 else row) (Presentations d)
        \<and> (\<exists>row \<in> set (Presentations d). p_id row = cs_presentationId cre))"
proof -
  have "Presentations (snd (deleteSlide_handler del context env d)) = Presentations d"
    by (simp add: deleteSlide_handler_def run_defs split: sum.splits list.splits option.splits)
  moreover have "createSlide_handler cre context env d = (Inr r2, d2) \<longrightarrow>
        Presentations d2 =
          map (\<lambda>row. if p_id row = cs_presentationId cre
                 then row\<lparr>p_slideCount := Some (int (length (slides_of d (cs_presentationId cre))) + 1),
                          p_updatedAt := new_Date env\<rparr>
                 else row) (Presentations d)
        \<and> (\<exists>row \<in> set (Presentations d). p_id row = cs_presentationId cre)"
    using createSlide_success(1,5) [of cre "context" env d r2 d2] by (auto simp: owns_def)
  ultimately show ?thesis by auto
qed

theorem deleteSlide_leaves_parent_witness:
  "deleteSlide_handler \<lparr>ds_id = ''s1'', ds_presentationId = ''p1''\<rparr> alice (env_at 130 ''s3'')
       two_slides_db = (Inr No_data, one_deleted_db)
   \<and> Presentations one_deleted_db = Presentations two_slides_db
   \<and> Slides one_deleted_db \<noteq> Slides two_slides_db
   \<and> (\<exists>r2 d2. createSlide_handler onto_deck alice (env_at 130 ''s3'') two_slides_db = (Inr r2, d2)
         \<and> Presentations d2 = [deck\<lparr>p_slideCount := Some 3, p_updatedAt := 130\<rparr>]
         \<and> Presentations d2 \<noteq> Presentations two_slides_db)"
proof -
  have del: "deleteSlide_handler \<lparr>ds_id = ''s1'', ds_presentationId = ''p1''\<rparr> alice
       (env_at 130 ''s3'') two_slides_db = (Inr No_data, one_deleted_db)"
    by (simp add: deleteSlide_handler_def run_defs sample_defs reads_back_def safe_integer_def)
  obtain r2 d2 where
    cre: "createSlide_handler onto_deck alice (env_at 130 ''s3'') two_slides_db = (Inr r2, d2)"
    by (simp add: createSlide_handler_def run_defs sample_defs reads_back_def safe_integer_def
        to_double_safe)
  have xs: "slides_of two_slides_db ''p1'' = [blank ''s1'' 1 110, blank ''s2'' 2 120]"
    by (simp add: slides_of_def sample_defs)
  have ps: "Presentations two_slides_db = [deck\<lparr>p_slideCount := Some 2, p_updatedAt := 120\<rparr>]"
    by (simp add: two_slides_db_def)
  have "Presentations d2 = [deck\<lparr>p_slideCount := Some 3, p_updatedAt := 130\<rparr>]
      \<and> Presentations one_deleted_db = Presentations two_slides_db"
    using del cre
      deleteSlide_leaves_parent [of "\<lparr>ds_id = ''s1'', ds_presentationId = ''p1''\<rparr>" alice
        "env_at 130 ''s3''" two_slides_db "Inr No_data" one_deleted_db onto_deck r2 d2]
    by (simp add: xs ps onto_deck_def env_at_def deck_def)
  then show ?thesis
    using del cre by (simp add: sample_defs)
qed

section \<open>Updates\<close>

text \<open>What a successful \<open>updatePresentation\<close> and a successful \<open>updateSlide\<close> have done.\<close>

lemma guard_passed:
  assumes "await (getOwnedPresentation presentationId userId) k d = (Inr r, d')"
  shows "owns d userId presentationId"
    and "\<exists>p. k p (issue (SELECT PresentationsTable) d) = (Inr r, d')"
proof -
  obtain x d1 where g: "getOwnedPresentation presentationId userId d = (x, d1)"
    by (cases "getOwnedPresentation presentationId userId d")
  from assms g obtain p where x: "x = Inr p"
    by (cases x) (simp_all add: await_def)
  from getOwnedPresentation_passed(1) [of presentationId userId d p d1] g x
  show "owns d userId presentationId" by simp
  from getOwnedPresentation_passed(3) [of presentationId userId d p d1] g x assms
  show "\<exists>p. k p (issue (SELECT PresentationsTable) d) = (Inr r, d')"
    by (auto simp: await_def)
qed

lemma updatePresentation_success:
  assumes "updatePresentation_handler input context env d = (Inr r, d')"
  shows "\<exists>u. caller context = Some u \<and> owns d (user_id u) (up_id input)"
    and "Slides d' = Slides d"
    and "Presentations d' =
           map (\<lambda>row. if p_id row = up_id input
                        then updatePresentation_set input (new_Date env) row else row)
             (Presentations d)"
proof -
  obtain u where u: "caller context = Some u"
    using assms
    by (cases "caller context")
       (simp_all add: updatePresentation_handler_def requireUser_absent throw_def)
  from assms u have run: "await (getOwnedPresentation (up_id input) (user_id u))
      (\<lambda>_. await (update_Presentations_returning (updatePresentation_set input (new_Date env))
                   (\<lambda>row. p_id row = up_id input)) (\<lambda>rows.
            return (Presentation_data (first_row rows)))) d = (Inr r, d')"
    by (simp add: updatePresentation_handler_def requireUser_present)
  from guard_passed(1) [OF run] u
  show "\<exists>u. caller context = Some u \<and> owns d (user_id u) (up_id input)"
    by blast
  from guard_passed(2) [OF run] show "Slides d' = Slides d"
    and "Presentations d' =
           map (\<lambda>row. if p_id row = up_id input
                        then updatePresentation_set input (new_Date env) row else row)
             (Presentations d)"
    by (auto simp: await_def update_Presentations_returning_def rows_read_def issue_def
        return_def split: if_splits)
qed

lemma updateSlide_success:
  assumes "updateSlide_handler input context env d = (Inr r, d')"
  shows "\<exists>u. caller context = Some u \<and> owns d (user_id u) (us_presentationId input)"
    and "has_slide d (us_presentationId input) (us_id input)"
    and "Presentations d' = Presentations d"
    and "Slides d' =
           map (\<lambda>row. if s_id row = us_id input
                        then updateSlide_set input (new_Date env) row else row)
             (Slides d)"
proof -
  obtain u where u: "caller context = Some u"
    using assms
    by (cases "caller context")
       (simp_all add: updateSlide_handler_def requireUser_absent throw_def)
  from assms u have run: "await (getOwnedPresentation (us_presentationId input) (user_id u))
      (\<lambda>_. await (select_Slides (\<lambda>row. s_id row = us_id input
                                  \<and> s_presentationId row = us_presentationId input)) (\<lambda>selected.
          (case first_row selected of
             None \<Rightarrow> throw NOT_FOUND
           | Some existing \<Rightarrow>
               await (update_Slides_returning (updateSlide_set input (new_Date env))
                        (\<lambda>row. s_id row = us_id input)) (\<lambda>rows.
               return (Slide_data (first_row rows)))))) d = (Inr r, d')"
    by (simp add: updateSlide_handler_def requireUser_present)
  from guard_passed(1) [OF run] u
  show "\<exists>u. caller context = Some u \<and> owns d (user_id u) (us_presentationId input)"
    by blast
  show "has_slide d (us_presentationId input) (us_id input)"
  proof (rule ccontr)
    assume "\<not> has_slide d (us_presentationId input) (us_id input)"
    then have "filter (\<lambda>row. s_id row = us_id input
                 \<and> s_presentationId row = us_presentationId input) (Slides d) = []"
      by (auto simp: has_slide_def filter_empty_conv)
    with guard_passed(2) [OF run] show False
      by (simp add: await_def select_Slides_def rows_read_def first_row_def throw_def issue_def)
  qed
  from guard_passed(2) [OF run] show "Presentations d' = Presentations d"
    and "Slides d' =
           map (\<lambda>row. if s_id row = us_id input
                        then updateSlide_set input (new_Date env) row else row)
             (Slides d)"
    by (auto simp: await_def select_Slides_def update_Slides_returning_def rows_read_def
        issue_def return_def first_row_def throw_def split: list.splits if_splits)
qed

text \<open>
  Claim C7. After a successful \<open>updatePresentation\<close> the \<open>Slides\<close> table is as before
  and the \<open>Presentations\<close> table has the same rows in the same order, where every row
  with another identifier is unchanged and the row with the supplied identifier keeps its
  identifier, owner and creation time, keeps every field the input does not supply, has
  the supplied value in every field the input supplies, and has the time of the call as
  \<open>updatedAt\<close>. The same holds for \<open>updateSlide\<close> with the two tables exchanged.
\<close>

theorem update_changes_supplied_fields_only:
  "(updatePresentation_handler upd context env d = (Inr r, d') \<longrightarrow>
      Slides d' = Slides d
    \<and> list_all2
        (\<lambda>old new.
           if p_id old = up_id upd
           then p_id new = p_id old
              \<and> p_userId new = p_userId old
              \<and> p_createdAt new = p_createdAt old
              \<and> p_title new = (case up_title upd of None \<Rightarrow> p_title old | Some v \<Rightarrow> v)
              \<and> p_description new
                  = (case up_description upd of None \<Rightarrow> p_description old | Some v \<Rightarrow> Some v)
              \<and> p_theme new = (case up_theme upd of None \<Rightarrow> p_theme old | Some v \<Rightarrow> Some v)
              \<and> p_aspectRatio new
                  = (case up_aspectRatio upd of None \<Rightarrow> p_aspectRatio old | Some v \<Rightarrow> Some v)
              \<and> p_slideCount new
                  = (case up_slideCount upd of None \<Rightarrow> p_slideCount old | Some v \<Rightarrow> Some v)
              \<and> p_updatedAt new = new_Date env
           else new = old)
        (Presentations d) (Presentations d'))
   \<and> (updateSlide_handler usl context env d = (Inr r2, d2) \<longrightarrow>
      Presentations d2 = Presentations d
    \<and> list_all2
        (\<lambda>old new.
           if s_id old = us_id usl
           then s_id new = s_id old
              \<and> s_presentationId new = s_presentationId old
              \<and> s_createdAt new = s_createdAt old
              \<and> s_orderIndex new
                  = (case us_orderIndex usl of None \<Rightarrow> s_orderIndex old | Some v \<Rightarrow> v)
              \<and> s_layoutType new
                  = (case us_layoutType usl of None \<Rightarrow> s_layoutType old | Some v \<Rightarrow> Some v)
              \<and> s_title new = (case us_title usl of None \<Rightarrow> s_title old | Some v \<Rightarrow> Some v)
              \<and> s_content new
                  = (case us_content usl of None \<Rightarrow> s_content old | Some v \<Rightarrow> Some v)
              \<and> s_notes new = (case us_notes usl of None \<Rightarrow> s_notes old | Some v \<Rightarrow> Some v)
              \<and> s_rawData new
                  = (case us_rawData usl of None \<Rightarrow> s_rawData old | Some v \<Rightarrow> Some v)
              \<and> s_updatedAt new = new_Date env
           else new = old)
        (Slides d) (Slides d2))"
proof (intro conjI impI)
  assume run: "updatePresentation_handler upd context env d = (Inr r, d')"
  show "Slides d' = Slides d"
    by (rule updatePresentation_success(2) [OF run])
  show "list_all2
        (\<lambda>old new.
           if p_id old = up_id upd
           then p_id new = p_id old
              \<and> p_userId new = p_userId old
              \<and> p_createdAt new = p_createdAt old
              \<and> p_title new = (case up_title upd of None \<Rightarrow> p_title old | Some v \<Rightarrow> v)
              \<and> p_description new
                  = (case up_description upd of None \<Rightarrow> p_description old | Some v \<Rightarrow> Some v)
              \<and> p_theme new = (case up_theme upd of None \<Rightarrow> p_theme old | Some v \<Rightarrow> Some v)
              \<and> p_aspectRatio new
                  = (case up_aspectRatio upd of None \<Rightarrow> p_aspectRatio old | Some v \<Rightarrow> Some v)
              \<and> p_slideCount new
                  = (case up_slideCount upd of None \<Rightarrow> p_slideCount old | Some v \<Rightarrow> Some v)
              \<and> p_updatedAt new = new_Date env
           else new = old)
        (Presentations d) (Presentations d')"
    unfolding updatePresentation_success(3) [OF run]
    by (simp add: list_all2_map2 list_all2_same updatePresentation_set_def Let_def
        split: option.splits)
next
  assume run: "updateSlide_handler usl context env d = (Inr r2, d2)"
  show "Presentations d2 = Presentations d"
    by (rule updateSlide_success(3) [OF run])
  show "list_all2
        (\<lambda>old new.
           if s_id old = us_id usl
           then s_id new = s_id old
              \<and> s_presentationId new = s_presentationId old
              \<and> s_createdAt new = s_createdAt old
              \<and> s_orderIndex new
                  = (case us_orderIndex usl of None \<Rightarrow> s_orderIndex old | Some v \<Rightarrow> v)
              \<and> s_layoutType new
                  = (case us_layoutType usl of None \<Rightarrow> s_layoutType old | Some v \<Rightarrow> Some v)
              \<and> s_title new = (case us_title usl of None \<Rightarrow> s_title old | Some v \<Rightarrow> Some v)
              \<and> s_content new
                  = (case us_content usl of None \<Rightarrow> s_content old | Some v \<Rightarrow> Some v)
              \<and> s_notes new = (case us_notes usl of None \<Rightarrow> s_notes old | Some v \<Rightarrow> Some v)
              \<and> s_rawData new
                  = (case us_rawData usl of None \<Rightarrow> s_rawData old | Some v \<Rightarrow> Some v)
              \<and> s_updatedAt new = new_Date env
           else new = old)
        (Slides d) (Slides d2)"
    unfolding updateSlide_success(4) [OF run]
    by (simp add: list_all2_map2 list_all2_same updateSlide_set_def Let_def
        split: option.splits)
qed

theorem update_changes_supplied_fields_only_witness:
  "updatePresentation_handler
     \<lparr>up_id = ''p1'', up_title = None, up_description = None, up_theme = Some ''corporate'',
      up_aspectRatio = None, up_slideCount = None\<rparr> alice (env_at 150 ''s3'') two_decks_db
     = (Inr (Presentation_data (Some (deck\<lparr>p_theme := Some ''corporate'',
                  p_slideCount := Some 2, p_updatedAt := 150\<rparr>))),
        two_decks_db
          \<lparr>Presentations := [deck\<lparr>p_theme := Some ''corporate'', p_slideCount := Some 2,
                                   p_updatedAt := 150\<rparr>,
                              Presentations two_decks_db ! 1],
           issued := issued two_decks_db @ [SELECT PresentationsTable,
                       UPDATE PresentationsTable]\<rparr>)
   \<and> updateSlide_handler
     \<lparr>us_id = ''s1'', us_presentationId = ''p1'', us_orderIndex = None, us_layoutType = None,
      us_title = Some ''Agenda'', us_content = None, us_notes = None, us_rawData = None\<rparr>
     alice (env_at 150 ''s3'') two_decks_db
     = (Inr (Slide_data (Some ((blank ''s1'' 1 110)\<lparr>s_title := Some ''Agenda'',
                  s_updatedAt := 150\<rparr>))),
        two_decks_db
          \<lparr>Slides := [(blank ''s1'' 1 110)\<lparr>s_title := Some ''Agenda'', s_updatedAt := 150\<rparr>,
                       blank ''s2'' 2 120],
           issued := issued two_decks_db @ [SELECT PresentationsTable, SELECT SlidesTable,
                       UPDATE SlidesTable]\<rparr>)
   \<and> list_all2
        (\<lambda>old new. if p_id old = ''p1''
           then p_title new = p_title old \<and> p_theme new = Some ''corporate''
              \<and> p_slideCount new = p_slideCount old \<and> p_updatedAt new = 150
           else new = old)
        (Presentations two_decks_db)
        [deck\<lparr>p_theme := Some ''corporate'', p_slideCount := Some 2, p_updatedAt := 150\<rparr>,
         Presentations two_decks_db ! 1]
   \<and> list_all2
        (\<lambda>old new. if s_id old = ''s1''
           then s_orderIndex new = s_orderIndex old \<and> s_title new = Some ''Agenda''
              \<and> s_updatedAt new = 150
           else new = old)
        (Slides two_decks_db)
        [(blank ''s1'' 1 110)\<lparr>s_title := Some ''Agenda'', s_updatedAt := 150\<rparr>,
         blank ''s2'' 2 120]"
proof -
  have run1: "updatePresentation_handler
     \<lparr>up_id = ''p1'', up_title = None, up_description = None, up_theme = Some ''corporate'',
      up_aspectRatio = None, up_slideCount = None\<rparr> alice (env_at 150 ''s3'') two_decks_db
     = (Inr (Presentation_data (Some (deck\<lparr>p_theme := Some ''corporate'',
                  p_slideCount := Some 2, p_updatedAt := 150\<rparr>))),
        two_decks_db
          \<lparr>Presentations := [deck\<lparr>p_theme := Some ''corporate'', p_slideCount := Some 2,
                                   p_updatedAt := 150\<rparr>,
                              Presentations two_decks_db ! 1],
           issued := issued two_decks_db @ [SELECT PresentationsTable,
                       UPDATE PresentationsTable]\<rparr>)"
    by (simp add: updatePresentation_handler_def updatePresentation_set_def run_defs sample_defs
        reads_back_def safe_integer_def)
  have run2: "updateSlide_handler
     \<lparr>us_id = ''s1'', us_presentationId = ''p1'', us_orderIndex = None, us_layoutType = None,
      us_title = Some ''Agenda'', us_content = None, us_notes = None, us_rawData = None\<rparr>
     alice (env_at 150 ''s3'') two_decks_db
     = (Inr (Slide_data (Some ((blank ''s1'' 1 110)\<lparr>s_title := Some ''Agenda'',
                  s_updatedAt := 150\<rparr>))),
        two_decks_db
          \<lparr>Slides := [(blank ''s1'' 1 110)\<lparr>s_title := Some ''Agenda'', s_updatedAt := 150\<rparr>,
                       blank ''s2'' 2 120],
           issued := issued two_decks_db @ [SELECT PresentationsTable, SELECT SlidesTable,
                       UPDATE SlidesTable]\<rparr>)"
    by (simp add: updateSlide_handler_def updateSlide_set_def run_defs sample_defs
        reads_back_def safe_integer_def)
  show ?thesis
    using run1 run2
      update_changes_supplied_fields_only [THEN conjunct1, rule_format, OF run1]
      update_changes_supplied_fields_only [THEN conjunct2, rule_format, OF run2]
    by (simp add: env_at_def two_decks_db_def two_slides_db_def deck_def blank_def)
qed

section \<open>The cached count as an invariant\<close>

text \<open>Tables after a call, whatever its outcome.\<close>

lemma createPresentation_tables:
  "Slides (snd (createPresentation_handler input context env d)) = Slides d
   \<and> (Presentations (snd (createPresentation_handler input context env d)) = Presentations d
      \<or> (\<exists>row. Presentations (snd (createPresentation_handler input context env d))
                  = Presentations d @ [row]
               \<and> p_id row \<notin> set (map p_id (Presentations d))
               \<and> p_slideCount row = Some 0))"
  by (simp add: createPresentation_handler_def run_defs Let_def split: sum.splits)

lemma guard_tables:
  "Presentations (snd (getOwnedPresentation presentationId userId d)) = Presentations d
   \<and> Slides (snd (getOwnedPresentation presentationId userId d)) = Slides d"
  by (simp add: run_defs split: list.splits)

lemma updatePresentation_tables:
  "Slides (snd (updatePresentation_handler input context env d)) = Slides d
   \<and> (Presentations (snd (updatePresentation_handler input context env d)) = Presentations d
      \<or> Presentations (snd (updatePresentation_handler input context env d))
          = map (\<lambda>row. if p_id row = up_id input
                        then updatePresentation_set input (new_Date env) row else row)
              (Presentations d))"
proof (cases "requireUser context")
  case (Inl e)
  then show ?thesis by (simp add: updatePresentation_handler_def throw_def)
next
  case (Inr u)
  obtain x d1 where g: "getOwnedPresentation (up_id input) (user_id u) d = (x, d1)"
    by (cases "getOwnedPresentation (up_id input) (user_id u) d")
  with guard_tables [of "up_id input" "user_id u" d]
  have d1: "Presentations d1 = Presentations d" "Slides d1 = Slides d" by simp_all
  from Inr g d1 show ?thesis
    by (cases x)
       (simp_all add: updatePresentation_handler_def await_def return_def
         update_Presentations_returning_def rows_read_def issue_def)
qed

lemma createSlide_tables:
  "fst (createSlide_handler input context env d) = Inl RANGE_ERROR
   \<or> (Slides (snd (createSlide_handler input context env d)) = Slides d
      \<and> Presentations (snd (createSlide_handler input context env d)) = Presentations d)
   \<or> (\<exists>row. Slides (snd (createSlide_handler input context env d)) = Slides d @ [row]
         \<and> s_presentationId row = cs_presentationId input
         \<and> Presentations (snd (createSlide_handler input context env d))
             = map (\<lambda>row. if p_id row = cs_presentationId input
                     then row\<lparr>p_slideCount :=
                                Some (int (length (slides_of d (cs_presentationId input))) + 1),
                              p_updatedAt := new_Date env\<rparr>
                     else row) (Presentations d))"
proof (cases "createSlide_handler input context env d")
  case (Pair r d')
  show ?thesis
  proof (cases r)
    case (Inl e)
    have "fst (createSlide_handler input context env d) = Inl RANGE_ERROR
      \<or> Slides (snd (createSlide_handler input context env d)) = Slides d
      \<and> Presentations (snd (createSlide_handler input context env d)) = Presentations d
      \<or> (\<exists>x. fst (createSlide_handler input context env d) = Inr x)"
      by (simp add: createSlide_handler_def run_defs Let_def split: sum.splits list.splits)
    with Pair Inl show ?thesis by auto
  next
    case (Inr x)
    with Pair have run: "createSlide_handler input context env d = (Inr x, d')" by simp
    with createSlide_success(4,5) [OF run] show ?thesis
      by simp
  qed
qed

text \<open>
  Whatever its outcome, \<open>createSlide\<close> leaves the identifiers of the presentations as they
  were and adds at most one slide, which references a presentation the caller owns.
\<close>

lemma createSlide_references:
  "map p_id (Presentations (snd (createSlide_handler input context env d)))
     = map p_id (Presentations d)
   \<and> (Slides (snd (createSlide_handler input context env d)) = Slides d
      \<or> (\<exists>row. Slides (snd (createSlide_handler input context env d)) = Slides d @ [row]
            \<and> s_presentationId row \<in> set (map p_id (Presentations d))))"
proof (cases "requireUser context")
  case (Inl e)
  then show ?thesis by (simp add: createSlide_handler_def throw_def)
next
  case (Inr u)
  obtain x d1 where g: "getOwnedPresentation (cs_presentationId input) (user_id u) d = (x, d1)"
    by (cases "getOwnedPresentation (cs_presentationId input) (user_id u) d")
  with guard_tables [of "cs_presentationId input" "user_id u" d]
  have d1: "Presentations d1 = Presentations d" "Slides d1 = Slides d" by simp_all
  show ?thesis
  proof (cases x)
    case (Inl e)
    with Inr g d1 show ?thesis
      by (simp add: createSlide_handler_def await_def)
  next
    case (Inr p)
    with g have "owns d (user_id u) (cs_presentationId input)"
      using getOwnedPresentation_passed(1) by blast
    then have known: "cs_presentationId input \<in> set (map p_id (Presentations d))"
      by (force simp: owns_def)
    have ids: "map p_id (map (\<lambda>row. if p_id row = cs_presentationId input
                  then row\<lparr>p_slideCount := c, p_updatedAt := t\<rparr> else row) ps) = map p_id ps"
      for c t and ps :: "presentation list"
      by simp
    from \<open>requireUser context = Inr u\<close> g Inr d1 known show ?thesis
      by (simp add: createSlide_handler_def await_def return_def select_Slides_def
          insert_Slides_returning_def update_Presentations_def rows_read_def issue_def
          Let_def ids del: map_map)
  qed
qed

lemma updateSlide_tables:
  "Presentations (snd (updateSlide_handler input context env d)) = Presentations d
   \<and> (Slides (snd (updateSlide_handler input context env d)) = Slides d
      \<or> Slides (snd (updateSlide_handler input context env d))
          = map (\<lambda>row. if s_id row = us_id input
                        then updateSlide_set input (new_Date env) row else row)
              (Slides d))"
proof (cases "requireUser context")
  case (Inl e)
  then show ?thesis by (simp add: updateSlide_handler_def throw_def)
next
  case (Inr u)
  obtain x d1 where g: "getOwnedPresentation (us_presentationId input) (user_id u) d = (x, d1)"
    by (cases "getOwnedPresentation (us_presentationId input) (user_id u) d")
  with guard_tables [of "us_presentationId input" "user_id u" d]
  have d1: "Presentations d1 = Presentations d" "Slides d1 = Slides d" by simp_all
  from Inr g d1 show ?thesis
    by (cases x)
       (simp_all add: updateSlide_handler_def await_def return_def throw_def first_row_def
         select_Slides_def update_Slides_returning_def rows_read_def issue_def
         split: list.splits)
qed

lemma deleteSlide_tables:
  "Presentations (snd (deleteSlide_handler input context env d)) = Presentations d
   \<and> set (Slides (snd (deleteSlide_handler input context env d))) \<subseteq> set (Slides d)"
  by (auto simp add: deleteSlide_handler_def run_defs split: sum.splits list.splits)

lemma updatePresentation_set_keeps:
  "p_id (updatePresentation_set input now row) = p_id row"
  "p_slideCount (updatePresentation_set input now row)
     = (case up_slideCount input of None \<Rightarrow> p_slideCount row | Some v \<Rightarrow> Some v)"
  by (simp_all add: updatePresentation_set_def Let_def split: option.splits)

lemma updateSlide_set_keeps:
  "s_presentationId (updateSlide_set input now row) = s_presentationId row"
  by (simp add: updateSlide_set_def Let_def split: option.splits)

lemma length_filter_map_same:
  "(\<And>x. P (g x) = P x) \<Longrightarrow> length (filter P (map g xs)) = length (filter P xs)"
  by (induction xs) simp_all

lemma in_sync_same_tables:
  "slideCount_in_sync d \<Longrightarrow> Presentations d' = Presentations d \<Longrightarrow> Slides d' = Slides d
   \<Longrightarrow> slideCount_in_sync d'"
  by (simp add: slideCount_in_sync_def slides_of_def)

lemma resolve_same_tables:
  "references_resolve d \<Longrightarrow> Presentations d' = Presentations d \<Longrightarrow> Slides d' = Slides d
   \<Longrightarrow> references_resolve d'"
  by (simp add: references_resolve_def)

lemma createPresentation_keeps_sync:
  assumes "slideCount_in_sync d" and "references_resolve d"
  shows "slideCount_in_sync (snd (createPresentation_handler input context env d))"
    and "references_resolve (snd (createPresentation_handler input context env d))"
proof -
  let ?d' = "snd (createPresentation_handler input context env d)"
  from createPresentation_tables [of input "context" env d]
  have S: "Slides ?d' = Slides d"
    and P: "Presentations ?d' = Presentations d
        \<or> (\<exists>row. Presentations ?d' = Presentations d @ [row]
               \<and> p_id row \<notin> set (map p_id (Presentations d))
               \<and> p_slideCount row = Some 0)"
    by simp_all
  from P have "slideCount_in_sync ?d' \<and> references_resolve ?d'"
  proof
    assume "Presentations ?d' = Presentations d"
    with S assms show ?thesis
      by (blast intro: in_sync_same_tables resolve_same_tables)
  next
    assume "\<exists>row. Presentations ?d' = Presentations d @ [row]
               \<and> p_id row \<notin> set (map p_id (Presentations d))
               \<and> p_slideCount row = Some 0"
    then obtain row where new: "Presentations ?d' = Presentations d @ [row]"
      and fresh: "p_id row \<notin> set (map p_id (Presentations d))"
      and zero: "p_slideCount row = Some 0"
      by blast
    from assms(2) fresh have "\<forall>x \<in> set (Slides d). s_presentationId x \<noteq> p_id row"
      unfolding references_resolve_def by metis
    then have none: "filter (\<lambda>x. s_presentationId x = p_id row) (Slides d) = []"
      by (simp add: filter_empty_conv)
    have "slideCount_in_sync ?d'"
      using assms(1) zero none unfolding slideCount_in_sync_def slides_of_def S new
      by simp
    moreover have "references_resolve ?d'"
      using assms(2) unfolding references_resolve_def S new by auto
    ultimately show ?thesis by simp
  qed
  then show "slideCount_in_sync ?d'" and "references_resolve ?d'" by simp_all
qed

lemma updatePresentation_keeps_sync:
  assumes "slideCount_in_sync d"
      and "up_slideCount input = None
           \<or> up_slideCount input = Some (int (length (slides_of d (up_id input))))"
  shows "slideCount_in_sync (snd (updatePresentation_handler input context env d))"
proof -
  let ?d' = "snd (updatePresentation_handler input context env d)"
  let ?g = "\<lambda>row. if p_id row = up_id input
                        then updatePresentation_set input (new_Date env) row else row"
  from updatePresentation_tables [of input "context" env d]
  have S: "Slides ?d' = Slides d"
    and P: "Presentations ?d' = Presentations d \<or> Presentations ?d' = map ?g (Presentations d)"
    by simp_all
  from P show ?thesis
  proof
    assume "Presentations ?d' = Presentations d"
    with S assms(1) show ?thesis by (blast intro: in_sync_same_tables)
  next
    assume m: "Presentations ?d' = map ?g (Presentations d)"
    have so: "slides_of ?d' pid = slides_of d pid" for pid
      by (simp add: slides_of_def S)
    have g: "p_slideCount (?g p) = Some (int (length (slides_of d (p_id (?g p)))))"
      if "p \<in> set (Presentations d)" for p
      using that assms unfolding slideCount_in_sync_def
      by (auto simp: updatePresentation_set_keeps)
    show ?thesis
      unfolding slideCount_in_sync_def so m
    proof
      fix p' assume "p' \<in> set (map ?g (Presentations d))"
      then obtain p where "p \<in> set (Presentations d)" and "p' = ?g p"
        by (auto simp del: if_split)
      with g [of p] show "p_slideCount p' = Some (int (length (slides_of d (p_id p'))))"
        by simp
    qed
  qed
qed

lemma updatePresentation_keeps_references:
  assumes "references_resolve d"
  shows "references_resolve (snd (updatePresentation_handler input context env d))"
proof -
  have "map p_id (map (\<lambda>row. if p_id row = up_id input
           then updatePresentation_set input (new_Date env) row else row) (Presentations d))
        = map p_id (Presentations d)"
    by (simp add: updatePresentation_set_keeps)
  with assms updatePresentation_tables [of input "context" env d] show ?thesis
    unfolding references_resolve_def by (elim conjE disjE) simp_all
qed

lemma createSlide_keeps_sync:
  assumes "slideCount_in_sync d"
      and "fst (createSlide_handler input context env d) \<noteq> Inl RANGE_ERROR"
  shows "slideCount_in_sync (snd (createSlide_handler input context env d))"
proof -
  let ?d' = "snd (createSlide_handler input context env d)"
  let ?g = "\<lambda>row. if p_id row = cs_presentationId input
                     then row\<lparr>p_slideCount :=
                                Some (int (length (slides_of d (cs_presentationId input))) + 1),
                              p_updatedAt := new_Date env\<rparr>
                     else row"
  from createSlide_tables [of input "context" env d] assms(2)
  consider (same) "Slides ?d' = Slides d" "Presentations ?d' = Presentations d"
    | (new) row where "Slides ?d' = Slides d @ [row]"
        "s_presentationId row = cs_presentationId input"
        "Presentations ?d' = map ?g (Presentations d)"
    by blast
  then show ?thesis
  proof cases
    case same
    with assms(1) show ?thesis
      by (blast intro: in_sync_same_tables)
  next
    case new
    show ?thesis
      using assms(1) new(2) unfolding slideCount_in_sync_def slides_of_def new(1) new(3)
      by auto
  qed
qed

lemma createSlide_keeps_references:
  assumes "references_resolve d"
  shows "references_resolve (snd (createSlide_handler input context env d))"
  using assms createSlide_references [of input "context" env d]
  unfolding references_resolve_def by auto

lemma updateSlide_keeps_sync:
  assumes "slideCount_in_sync d" and "references_resolve d"
  shows "slideCount_in_sync (snd (updateSlide_handler input context env d))"
    and "references_resolve (snd (updateSlide_handler input context env d))"
proof -
  let ?d' = "snd (updateSlide_handler input context env d)"
  let ?g = "\<lambda>row. if s_id row = us_id input
                        then updateSlide_set input (new_Date env) row else row"
  have g: "\<And>row. s_presentationId (?g row) = s_presentationId row"
    by (simp add: updateSlide_set_keeps)
  from updateSlide_tables [of input "context" env d]
  have P: "Presentations ?d' = Presentations d"
    and S: "Slides ?d' = Slides d \<or> Slides ?d' = map ?g (Slides d)"
    by simp_all
  from S show "slideCount_in_sync ?d'"
  proof
    assume "Slides ?d' = Slides d"
    with P assms(1) show ?thesis by (blast intro: in_sync_same_tables)
  next
    assume m: "Slides ?d' = map ?g (Slides d)"
    have "\<And>pid. length (filter (\<lambda>row. s_presentationId row = pid) (map ?g (Slides d)))
              = length (filter (\<lambda>row. s_presentationId row = pid) (Slides d))"
      by (rule length_filter_map_same) (simp add: updateSlide_set_keeps)
    with assms(1) show ?thesis
      unfolding slideCount_in_sync_def slides_of_def P m by simp
  qed
  from S show "references_resolve ?d'"
  proof
    assume "Slides ?d' = Slides d"
    with P assms(2) show ?thesis by (blast intro: resolve_same_tables)
  next
    assume m: "Slides ?d' = map ?g (Slides d)"
    from assms(2) show ?thesis
      unfolding references_resolve_def P m by (auto simp: updateSlide_set_keeps)
  qed
qed

lemma deleteSlide_keeps_references:
  assumes "references_resolve d"
  shows "references_resolve (snd (deleteSlide_handler input context env d))"
  using assms deleteSlide_tables [of input "context" env d]
  unfolding references_resolve_def by auto

text \<open>
  Claim C1 says that each of \<open>createPresentation\<close>, \<open>updatePresentation\<close>, \<open>createSlide\<close>,
  \<open>updateSlide\<close> and \<open>deleteSlide\<close> preserves \<open>slideCount_in_sync\<close>. In \<open>two_slides_db\<close>
  the predicate holds. A successful \<open>deleteSlide\<close> leads to \<open>one_deleted_db\<close>, where the
  stored count is still 2 with one slide left; a successful \<open>updatePresentation\<close> that
  supplies \<open>slideCount = 7\<close> stores 7 for a presentation with two slides.
\<close>

theorem slideCount_in_sync_counterexample:
  "slideCount_in_sync two_slides_db
   \<and> references_resolve two_slides_db
   \<and> deleteSlide_handler \<lparr>ds_id = ''s1'', ds_presentationId = ''p1''\<rparr> alice (env_at 130 ''s3'')
       two_slides_db = (Inr No_data, one_deleted_db)
   \<and> \<not> slideCount_in_sync one_deleted_db
   \<and> fst (updatePresentation_handler
       \<lparr>up_id = ''p1'', up_title = None, up_description = None, up_theme = None,
        up_aspectRatio = None, up_slideCount = Some 7\<rparr> alice (env_at 130 ''s3'') two_slides_db)
       = Inr (Presentation_data (Some (deck\<lparr>p_slideCount := Some 7, p_updatedAt := 130\<rparr>)))
   \<and> \<not> slideCount_in_sync (snd (updatePresentation_handler
       \<lparr>up_id = ''p1'', up_title = None, up_description = None, up_theme = None,
        up_aspectRatio = None, up_slideCount = Some 7\<rparr> alice (env_at 130 ''s3'') two_slides_db))"
  by (simp add: slideCount_in_sync_def references_resolve_def slides_of_def
      deleteSlide_handler_def updatePresentation_handler_def updatePresentation_set_def
      run_defs sample_defs reads_back_def safe_integer_def)

text \<open>
  Claim C1, amended. With the calls run one at a time, in a store where every slide
  references a presentation of the store, \<open>slideCount_in_sync\<close> is preserved by every
  \<open>createPresentation\<close> and every \<open>updateSlide\<close>, by every \<open>updatePresentation\<close> that
  supplies no \<open>slideCount\<close> or supplies the number of slides of the presentation (these
  three whether the call succeeds or fails), and by every \<open>createSlide\<close> that succeeds
  or fails with \<open>UNAUTHORIZED\<close> or \<open>NOT_FOUND\<close>. All four operations preserve, whatever
  their outcome, that every slide references a presentation of the store. A
  \<open>createSlide\<close> that throws after its insert leaves the inserted slide uncounted
  (\<open>createSlide_throws_after_insert\<close>); the amended claim says nothing about it.
\<close>

theorem slideCount_stays_in_sync:
  assumes "slideCount_in_sync d" and "references_resolve d"
  shows "slideCount_in_sync (snd (createPresentation_handler cp context env d))
       \<and> references_resolve (snd (createPresentation_handler cp context env d))
       \<and> (up_slideCount upd = None
            \<or> up_slideCount upd = Some (int (length (slides_of d (up_id upd))))
          \<longrightarrow> slideCount_in_sync (snd (updatePresentation_handler upd context env d)))
       \<and> references_resolve (snd (updatePresentation_handler upd context env d))
       \<and> ((\<exists>r. fst (createSlide_handler cre context env d) = Inr r)
            \<or> fst (createSlide_handler cre context env d) = Inl UNAUTHORIZED
            \<or> fst (createSlide_handler cre context env d) = Inl NOT_FOUND
          \<longrightarrow> slideCount_in_sync (snd (createSlide_handler cre context env d)))
       \<and> references_resolve (snd (createSlide_handler cre context env d))
       \<and> slideCount_in_sync (snd (updateSlide_handler usl context env d))
       \<and> references_resolve (snd (updateSlide_handler usl context env d))"
proof -
  have "slideCount_in_sync (snd (createSlide_handler cre context env d))"
    if "(\<exists>r. fst (createSlide_handler cre context env d) = Inr r)
          \<or> fst (createSlide_handler cre context env d) = Inl UNAUTHORIZED
          \<or> fst (createSlide_handler cre context env d) = Inl NOT_FOUND"
  proof (rule createSlide_keeps_sync [OF assms(1)])
    from that show "fst (createSlide_handler cre context env d) \<noteq> Inl RANGE_ERROR"
      by auto
  qed
  with assms show ?thesis
    by (simp add: createPresentation_keeps_sync updatePresentation_keeps_sync
        updatePresentation_keeps_references createSlide_keeps_references
        updateSlide_keeps_sync)
qed

theorem slideCount_stays_in_sync_witness:
  "slideCount_in_sync two_slides_db
   \<and> references_resolve two_slides_db
   \<and> length (slides_of two_slides_db ''p1'') = 2
   \<and> fst (createSlide_handler onto_deck alice (env_at 125 ''s3'') two_slides_db)
       = Inr (Slide_data (Some (blank ''s3'' 3 125)))
   \<and> slideCount_in_sync (snd (createPresentation_handler roadmap alice (env_at 125 ''p2'')
         two_slides_db))
   \<and> slideCount_in_sync (snd (updatePresentation_handler
         \<lparr>up_id = ''p1'', up_title = Some ''Q2 Review'', up_description = None, up_theme = None,
          up_aspectRatio = None, up_slideCount = None\<rparr> alice (env_at 125 ''p2'') two_slides_db))
   \<and> slideCount_in_sync (snd (updatePresentation_handler (recount 2) alice (env_at 125 ''p2'')
         two_slides_db))
   \<and> slideCount_in_sync (snd (createSlide_handler onto_deck alice (env_at 125 ''s3'')
         two_slides_db))
   \<and> slideCount_in_sync (snd (updateSlide_handler
         \<lparr>us_id = ''s1'', us_presentationId = ''p1'', us_orderIndex = Some 9,
          us_layoutType = None, us_title = None, us_content = None, us_notes = None,
          us_rawData = None\<rparr> alice (env_at 125 ''s3'') two_slides_db))"
proof -
  have i: "slideCount_in_sync two_slides_db"
    by (simp add: slideCount_in_sync_def slides_of_def sample_defs)
  have r: "references_resolve two_slides_db"
    by (simp add: references_resolve_def sample_defs)
  have n: "length (slides_of two_slides_db ''p1'') = 2"
    by (simp add: slides_of_def sample_defs)
  have c: "fst (createSlide_handler onto_deck alice (env_at 125 ''s3'') two_slides_db)
       = Inr (Slide_data (Some (blank ''s3'' 3 125)))"
    by (simp add: createSlide_handler_def run_defs sample_defs reads_back_def safe_integer_def
        to_double_safe)
  have u: "up_slideCount (recount 2) = Some 2" "up_id (recount 2) = ''p1''"
    by (simp_all add: recount_def)
  show ?thesis
    using i r n c u
      slideCount_stays_in_sync [of two_slides_db roadmap alice "env_at 125 ''p2''"
        "\<lparr>up_id = ''p1'', up_title = Some ''Q2 Review'', up_description = None,
          up_theme = None, up_aspectRatio = None, up_slideCount = None\<rparr>", OF i r]
      slideCount_stays_in_sync [of two_slides_db _ alice "env_at 125 ''p2''" "recount 2", OF i r]
      slideCount_stays_in_sync [of two_slides_db _ alice "env_at 125 ''s3''" _ onto_deck
        "\<lparr>us_id = ''s1'', us_presentationId = ''p1'', us_orderIndex = Some 9,
          us_layoutType = None, us_title = None, us_content = None, us_notes = None,
          us_rawData = None\<rparr>", OF i r]
    by simp
qed

end
